theory Spec2Isabelle
  imports Complex_Main
begin

section \<open>Python values\<close>

text \<open>
  A Python \<open>str\<close> is a \<open>string\<close>. The retrieval service measures and cuts text: there a
  string has one character per code point, which covers text below code point 256, and
  the text that the splitter cuts is a list over any element type, so that lengths and
  slices count what Python counts for every alphabet. Everywhere else strings are only
  compared, joined and passed on, and a string holds the UTF-8 bytes of the text. A lone
  surrogate, which \<open>json.loads\<close> accepts in an escape and UTF-8 cannot encode, is held by
  the three bytes \<open>ED A0..BF 80..BF\<close> that the \<open>surrogatepass\<close> handler gives. The fixed
  messages of the source that are written in Chinese are constants holding their UTF-8
  bytes.

  A \<open>float\<close> is a real number or one of the three special values.
\<close>

datatype py_float = Finite real | FNaN | FInf | FNegInf

text \<open>
  The values that \<open>json.loads\<close> produces: \<open>None\<close>, booleans, integers, floats, strings,
  lists and dictionaries with string keys, in insertion order.
\<close>

datatype json =
    JNull
  | JBool bool
  | JInt int
  | JFloat py_float
  | JStr string
  | JArr "json list"
  | JObj "(string \<times> json) list"

text \<open>
  The exceptions the modelled code raises or meets; the argument is \<open>str(e)\<close>. The last
  three are no subclasses of \<open>Exception\<close>: an \<open>except Exception\<close> clause lets them pass.
\<close>

datatype py_exception =
    AsyncioTimeoutError string
  | ValueError string
  | TypeError string
  | AttributeError string
  | RuntimeError string
  | OverflowError string
  | UnicodeEncodeError string
  | OtherException string
  | CancelledError string
  | KeyboardInterrupt string
  | SystemExit string

fun str_e :: "py_exception \<Rightarrow> string" where
  "str_e (AsyncioTimeoutError m) = m"
| "str_e (ValueError m) = m"
| "str_e (TypeError m) = m"
| "str_e (AttributeError m) = m"
| "str_e (RuntimeError m) = m"
| "str_e (OverflowError m) = m"
| "str_e (UnicodeEncodeError m) = m"
| "str_e (OtherException m) = m"
| "str_e (CancelledError m) = m"
| "str_e (KeyboardInterrupt m) = m"
| "str_e (SystemExit m) = m"

text \<open>\<open>isinstance(e, Exception)\<close>.\<close>

fun is_exception :: "py_exception \<Rightarrow> bool" where
  "is_exception (CancelledError m) = False"
| "is_exception (KeyboardInterrupt m) = False"
| "is_exception (SystemExit m) = False"
| "is_exception e = True"

text \<open>Truth value of a decoded JSON value, as \<open>if v\<close>, \<open>v or d\<close> and \<open>not v\<close> test it.\<close>

fun truthy :: "json \<Rightarrow> bool" where
  "truthy JNull = False"
| "truthy (JBool b) = b"
| "truthy (JInt n) = (n \<noteq> 0)"
| "truthy (JFloat f) = (f \<noteq> Finite 0)"
| "truthy (JStr s) = (s \<noteq> [])"
| "truthy (JArr xs) = (xs \<noteq> [])"
| "truthy (JObj kvs) = (kvs \<noteq> [])"

definition py_or :: "json \<Rightarrow> json \<Rightarrow> json" where
  "py_or v d = (if truthy v then v else d)"

text \<open>\<open>d.get(k)\<close>: the value stored under \<open>k\<close>, \<open>None\<close> when the key is absent.\<close>

definition dict_get :: "(string \<times> json) list \<Rightarrow> string \<Rightarrow> json" where
  "dict_get d k = (case map_of d k of None \<Rightarrow> JNull | Some v \<Rightarrow> v)"

text \<open>\<open>d.get(k, default)\<close>.\<close>

definition dict_get_default :: "(string \<times> json) list \<Rightarrow> string \<Rightarrow> json \<Rightarrow> json" where
  "dict_get_default d k dflt = (case map_of d k of None \<Rightarrow> dflt | Some v \<Rightarrow> v)"

text \<open>\<open>d[k] = v\<close>: an existing key keeps its place, a new key goes to the end.\<close>

fun dict_set :: "(string \<times> 'v) list \<Rightarrow> string \<Rightarrow> 'v \<Rightarrow> (string \<times> 'v) list" where
  "dict_set [] k v = [(k, v)]"
| "dict_set ((k', v') # d) k v = (if k' = k then (k, v) # d else (k', v') # dict_set d k v)"

subsection \<open>Strings that UTF-8 cannot encode\<close>

text \<open>A string holds a lone surrogate when the byte \<open>ED\<close> is followed by a byte from \<open>A0\<close> on.\<close>

fun has_surrogate :: "string \<Rightarrow> bool" where
  "has_surrogate (a # b # s) =
     ((a = CHR 0xED \<and> (0xA0 :: nat) \<le> of_char b) \<or> has_surrogate (b # s))"
| "has_surrogate s = False"

text \<open>
  Whether \<open>json.dumps(v, ensure_ascii=False).encode("utf-8")\<close> succeeds: it raises
  \<open>UnicodeEncodeError\<close> when a string or a key of the value holds a lone surrogate.
\<close>

primrec encodable :: "json \<Rightarrow> bool" where
  "encodable JNull = True"
| "encodable (JBool b) = True"
| "encodable (JInt n) = True"
| "encodable (JFloat f) = True"
| "encodable (JStr s) = (\<not> has_surrogate s)"
| "encodable (JArr xs) = list_all id (map encodable xs)"
| "encodable (JObj kvs) =
     list_all (\<lambda>(k, b). \<not> has_surrogate k \<and> b) (map (map_prod id encodable) kvs)"

subsection \<open>White space\<close>

text \<open>
  The characters that \<open>str.isspace\<close> accepts, each by its UTF-8 bytes: the ASCII controls
  \<open>09..0D\<close> and \<open>1C..1F\<close>, the space, \<open>U+0085\<close>, \<open>U+00A0\<close>, \<open>U+1680\<close>, \<open>U+2000..U+200A\<close>,
  \<open>U+2028\<close>, \<open>U+2029\<close>, \<open>U+202F\<close>, \<open>U+205F\<close> and \<open>U+3000\<close>.
\<close>

definition space_chars :: "string list" where
  "space_chars =
     map (\<lambda>c. [c]) [CHR 0x09, CHR 0x0A, CHR 0x0B, CHR 0x0C, CHR 0x0D,
                     CHR 0x1C, CHR 0x1D, CHR 0x1E, CHR 0x1F, CHR 0x20]
     @ [[CHR 0xC2, CHR 0x85], [CHR 0xC2, CHR 0xA0], [CHR 0xE1, CHR 0x9A, CHR 0x80]]
     @ map (\<lambda>c. [CHR 0xE2, CHR 0x80, c])
           [CHR 0x80, CHR 0x81, CHR 0x82, CHR 0x83, CHR 0x84, CHR 0x85, CHR 0x86, CHR 0x87,
            CHR 0x88, CHR 0x89, CHR 0x8A, CHR 0xA8, CHR 0xA9, CHR 0xAF]
     @ [[CHR 0xE2, CHR 0x81, CHR 0x9F], [CHR 0xE3, CHR 0x80, CHR 0x80]]"

text \<open>The length of the first of the sequences \<open>ws\<close> that \<open>s\<close> begins with, 0 when there is none.\<close>

fun space_prefix :: "string list \<Rightarrow> string \<Rightarrow> nat" where
  "space_prefix [] s = 0"
| "space_prefix (w # ws) s =
     (if w \<noteq> [] \<and> take (length w) s = w then length w else space_prefix ws s)"

text \<open>Dropping the sequences \<open>ws\<close> from the front of a string for as long as one is there.\<close>

function lstrip_with :: "string list \<Rightarrow> string \<Rightarrow> string" where
  "lstrip_with ws s =
     (if space_prefix ws s = 0 then s else lstrip_with ws (drop (space_prefix ws s) s))"
  by pat_completeness auto
termination
proof (relation "measure (\<lambda>(ws, s). length s)")
  show "wf (measure (\<lambda>(ws, s). length s))" by simp
next
  fix ws :: "string list" and s :: string
  assume a: "space_prefix ws s \<noteq> 0"
  have "space_prefix ws s \<noteq> 0 \<Longrightarrow> s \<noteq> []"
    by (induction ws) (auto split: if_splits)
  with a have "s \<noteq> []" by simp
  with a show "((ws, drop (space_prefix ws s) s), (ws, s)) \<in> measure (\<lambda>(ws, s). length s)"
    by simp
qed

declare lstrip_with.simps [simp del]

text \<open>\<open>s.strip()\<close>.\<close>

definition strip :: "string \<Rightarrow> string" where
  "strip s = rev (lstrip_with (map rev space_chars) (rev (lstrip_with space_chars s)))"

subsection \<open>Decimal rendering and parsing of integers\<close>

definition digit_char :: "nat \<Rightarrow> char" where
  "digit_char d = char_of (48 + d)"

fun str_nat :: "nat \<Rightarrow> string" where
  "str_nat n = (if n < 10 then [digit_char n] else str_nat (n div 10) @ [digit_char (n mod 10)])"

definition str_int :: "int \<Rightarrow> string" where
  "str_int i = (if i < 0 then CHR ''-'' # str_nat (nat (- i)) else str_nat (nat i))"

text \<open>The white space that \<open>int(s)\<close> skips at both ends of an ASCII string.\<close>

definition ascii_space :: "char \<Rightarrow> bool" where
  "ascii_space c = (c \<in> set [CHR '' '', CHR 0x09, CHR 0x0A, CHR 0x0B, CHR 0x0C, CHR 0x0D])"

definition ascii_strip :: "string \<Rightarrow> string" where
  "ascii_strip s = rev (dropWhile ascii_space (rev (dropWhile ascii_space s)))"

definition digit_val :: "char \<Rightarrow> nat option" where
  "digit_val c = (let n = (of_char c :: nat) in if 48 \<le> n \<and> n \<le> 57 then Some (n - 48) else None)"

text \<open>
  The digits of an integer literal as \<open>int(s)\<close> reads them: at least one digit, and single
  underscores only between digits. The flag says that the previous character was a digit.
\<close>

fun digits_acc :: "nat \<Rightarrow> bool \<Rightarrow> string \<Rightarrow> nat option" where
  "digits_acc acc prev [] = (if prev then Some acc else None)"
| "digits_acc acc prev (c # cs) =
     (if c = CHR ''_'' then (if prev \<and> cs \<noteq> [] then digits_acc acc False cs else None)
      else case digit_val c of
             None \<Rightarrow> None
           | Some d \<Rightarrow> digits_acc (10 * acc + d) True cs)"

text \<open>
  \<open>int(s)\<close> on a string: surrounding white space, an optional sign, digits, of which
  there may be 4300 at most (\<open>sys.int_max_str_digits\<close>). The model is exact on ASCII
  strings; a string with a character outside ASCII is rejected, where Python also reads
  the decimal digits and the white space of other scripts.
\<close>

definition int_of_str :: "string \<Rightarrow> int option" where
  "int_of_str s =
     (case ascii_strip s of
        [] \<Rightarrow> None
      | c # r \<Rightarrow>
          let ds = (if c = CHR ''-'' \<or> c = CHR ''+'' then r else c # r) in
          if 4300 < length (filter (\<lambda>d. digit_val d \<noteq> None) ds) then None
          else if c = CHR ''-'' then map_option (\<lambda>n. - int n) (digits_acc 0 False ds)
          else map_option int (digits_acc 0 False ds))"

text \<open>
  \<open>int(v)\<close> on a decoded JSON value; a float is cut towards zero. The messages are given
  without the literal or the type name that Python appends.
\<close>

fun py_int :: "json \<Rightarrow> py_exception + int" where
  "py_int JNull = Inl (TypeError ''int() argument must be a string, a bytes-like object or a real number, not 'NoneType' '')"
| "py_int (JBool b) = Inr (if b then 1 else 0)"
| "py_int (JInt n) = Inr n"
| "py_int (JFloat f) =
     (case f of
        Finite x \<Rightarrow> Inr (if 0 \<le> x then \<lfloor>x\<rfloor> else \<lceil>x\<rceil>)
      | FNaN \<Rightarrow> Inl (ValueError ''cannot convert float NaN to integer'')
      | _ \<Rightarrow> Inl (OverflowError ''cannot convert float infinity to integer''))"
| "py_int (JStr s) =
     (case int_of_str s of
        None \<Rightarrow> Inl (ValueError ''invalid literal for int() with base 10'')
      | Some n \<Rightarrow> Inr n)"
| "py_int (JArr xs) = Inl (TypeError ''int() argument must be a string, a bytes-like object or a real number, not 'list' '')"
| "py_int (JObj kvs) = Inl (TypeError ''int() argument must be a string, a bytes-like object or a real number, not 'dict' '')"

text \<open>
  \<open>str(v)\<close> on a decoded JSON value. The rendering of a float, a list or a dictionary is
  Python's \<open>repr\<close>, taken as the parameter \<open>repr\<close>.
\<close>

fun py_str :: "(json \<Rightarrow> string) \<Rightarrow> json \<Rightarrow> string" where
  "py_str repr JNull = ''None''"
| "py_str repr (JBool b) = (if b then ''True'' else ''False'')"
| "py_str repr (JInt n) = str_int n"
| "py_str repr (JFloat f) = repr (JFloat f)"
| "py_str repr (JStr s) = s"
| "py_str repr (JArr xs) = repr (JArr xs)"
| "py_str repr (JObj kvs) = repr (JObj kvs)"

subsection \<open>Slices and ranges\<close>

text \<open>A slice bound, clamped as \<open>xs[i:j]\<close> clamps it: a negative bound counts from the end.\<close>

definition slice_index :: "nat \<Rightarrow> int \<Rightarrow> nat" where
  "slice_index n i = (if i < 0 then nat (max 0 (int n + i)) else min n (nat i))"

definition py_slice :: "'a list \<Rightarrow> int \<Rightarrow> int \<Rightarrow> 'a list" where
  "py_slice xs i j =
     (let lo = slice_index (length xs) i; hi = slice_index (length xs) j
      in take (hi - lo) (drop lo xs))"

text \<open>
  \<open>range(i, n, step)\<close> for a step of at least one. Python raises on a zero step; the
  callers here pass \<open>max(1, ...)\<close>, and the model returns the empty list there.
\<close>

function range_from :: "nat \<Rightarrow> nat \<Rightarrow> nat \<Rightarrow> nat list" where
  "range_from i n step = (if step = 0 \<or> n \<le> i then [] else i # range_from (i + step) n step)"
  by pat_completeness auto
termination
  by (relation "measure (\<lambda>(i, n, step). n - i)") auto

declare range_from.simps [simp del]

section \<open>RAG service (rag\_service.py)\<close>

text \<open>
  The fields of \<open>RAGService\<close> that the modelled methods read. \<open>collection\<close> says whether the
  Chroma collection was resolved, \<open>emb_client\<close> whether the embeddings client exists.
\<close>

record RAGService =
  chunk_size :: int
  chunk_overlap :: int
  collection :: bool
  emb_client :: bool

text \<open>\<open>_split_text\<close>.\<close>

definition split_text :: "RAGService \<Rightarrow> 'a list \<Rightarrow> 'a list list" where
  "split_text self text =
     (if text = [] then []
      else let step = max 1 (chunk_size self - chunk_overlap self)
           in map (\<lambda>i. py_slice text (int i) (int i + chunk_size self))
                  (range_from 0 (length text) (nat step)))"

text \<open>The service as \<open>__init__\<close> builds it when the environment sets no split parameter.\<close>

definition default_rag :: RAGService where
  "default_rag = \<lparr>chunk_size = 1000, chunk_overlap = 200, collection = True, emb_client = True\<rparr>"


text \<open>\<open>_hash_id\<close>; \<open>sha\<close> is \<open>hashlib.sha256(base.encode("utf-8")).hexdigest()\<close>.\<close>

definition hash_id :: "(string \<Rightarrow> string) \<Rightarrow> string \<Rightarrow> string" where
  "hash_id sha base = take 32 (sha base)"

definition chroma_not_connected :: string where
  "chroma_not_connected = [CHR 0x43, CHR 0x68, CHR 0x72, CHR 0x6F, CHR 0x6D, CHR 0x61, CHR 0x20, CHR 0xE6, CHR 0x9C, CHR 0xAA, CHR 0xE8, CHR 0xBF, CHR 0x9E, CHR 0xE6, CHR 0x8E, CHR 0xA5, CHR 0xE6, CHR 0x88, CHR 0x96, CHR 0xE5, CHR 0x88, CHR 0x9D, CHR 0xE5, CHR 0xA7, CHR 0x8B, CHR 0xE5, CHR 0x8C, CHR 0x96, CHR 0xE5, CHR 0xA4, CHR 0xB1, CHR 0xE8, CHR 0xB4, CHR 0xA5]"

definition embeddings_not_initialised :: string where
  "embeddings_not_initialised = [CHR 0x45, CHR 0x6D, CHR 0x62, CHR 0x65, CHR 0x64, CHR 0x64, CHR 0x69, CHR 0x6E, CHR 0x67, CHR 0x73, CHR 0x20, CHR 0x63, CHR 0x6C, CHR 0x69, CHR 0x65, CHR 0x6E, CHR 0x74, CHR 0x20, CHR 0xE6, CHR 0x9C, CHR 0xAA, CHR 0xE5, CHR 0x88, CHR 0x9D, CHR 0xE5, CHR 0xA7, CHR 0x8B, CHR 0xE5, CHR 0x8C, CHR 0x96, CHR 0x20, CHR 0x28, CHR 0x45, CHR 0x4D, CHR 0x42, CHR 0x45, CHR 0x44, CHR 0x44, CHR 0x49, CHR 0x4E, CHR 0x47, CHR 0x53, CHR 0x5F, CHR 0x2A, CHR 0x29]"

text \<open>
  \<open>_embed\<close>. The embeddings provider is the parameter \<open>create\<close>, which returns one vector
  per text or raises; a vector is a value of any type \<open>'e\<close>.
\<close>

definition embed_texts :: "RAGService \<Rightarrow> (string list \<Rightarrow> py_exception + 'e list) \<Rightarrow> string list
    \<Rightarrow> py_exception + 'e list" where
  "embed_texts self create texts =
     (if \<not> emb_client self then Inl (RuntimeError embeddings_not_initialised)
      else if texts = [] then Inr []
      else create texts)"

text \<open>The one call \<open>ingest_text\<close> makes on the collection.\<close>

record 'e upsert_call =
  up_ids :: "string list"
  up_documents :: "string list"
  up_metadatas :: "(string \<times> json) list list"
  up_embeddings :: "'e list"

text \<open>What \<open>ingest_text\<close> returns, and the upsert it issued, if any.\<close>

record 'e ingest_result =
  ir_doc_id :: string
  ir_chunk_count :: nat
  ir_upsert :: "'e upsert_call option"

definition str_or_default :: "string option \<Rightarrow> string \<Rightarrow> string" where
  "str_or_default v d = (case v of None \<Rightarrow> d | Some s \<Rightarrow> if s = [] then d else s)"

text \<open>\<open>str(user_id or "")\<close>.\<close>

definition user_prefix :: "int option \<Rightarrow> string" where
  "user_prefix user_id = (case user_id of None \<Rightarrow> [] | Some u \<Rightarrow> if u = 0 then [] else str_int u)"

text \<open>The base id and the chunk ids as \<open>ingest_text\<close> derives them.\<close>

definition base_id_of :: "(string \<Rightarrow> string) \<Rightarrow> string \<Rightarrow> string option \<Rightarrow> string option
    \<Rightarrow> int option \<Rightarrow> string" where
  "base_id_of sha text doc_id namespace user_id =
     (case doc_id of
        Some d \<Rightarrow> if d \<noteq> [] then d
                  else hash_id sha (str_or_default namespace ''default'' @ (user_prefix user_id @ take 64 text))
      | None \<Rightarrow> hash_id sha (str_or_default namespace ''default'' @ (user_prefix user_id @ take 64 text)))"

definition chunk_ids :: "(string \<Rightarrow> string) \<Rightarrow> string \<Rightarrow> nat \<Rightarrow> string list" where
  "chunk_ids sha base_id n = map (\<lambda>i. hash_id sha (base_id @ ''-'' @ str_nat i)) [0..<n]"

definition chunk_metadata :: "string \<Rightarrow> string option \<Rightarrow> int option \<Rightarrow> string list option
    \<Rightarrow> (string \<times> json) list option \<Rightarrow> nat \<Rightarrow> (string \<times> json) list" where
  "chunk_metadata base_id namespace user_id tags extra_metadata idx =
     (let md = [(''namespace'', JStr (str_or_default namespace ''default'')),
                (''chunk_index'', JInt (int idx)),
                (''doc_id'', JStr base_id)];
          md = (case user_id of None \<Rightarrow> md | Some u \<Rightarrow> dict_set md ''user_id'' (JInt u));
          md = (case tags of
                  None \<Rightarrow> md
                | Some ts \<Rightarrow> if ts = [] then md else dict_set md ''tags'' (JArr (map JStr ts)))
      in case extra_metadata of
           None \<Rightarrow> md
         | Some kvs \<Rightarrow> foldl (\<lambda>m (k, v). dict_set m k v) md kvs)"

text \<open>
  \<open>ingest_text\<close>. \<open>create\<close> is the embeddings provider and \<open>upsert\<close> the REST call on the
  collection, which returns the exception it raised, if any.
\<close>

definition ingest_text :: "RAGService \<Rightarrow> (string \<Rightarrow> string) \<Rightarrow> (string list \<Rightarrow> py_exception + 'e list)
    \<Rightarrow> ('e upsert_call \<Rightarrow> py_exception option)
    \<Rightarrow> string \<Rightarrow> string option \<Rightarrow> string option \<Rightarrow> int option \<Rightarrow> string list option
    \<Rightarrow> (string \<times> json) list option \<Rightarrow> py_exception + 'e ingest_result" where
  "ingest_text self sha create upsert text doc_id namespace user_id tags extra_metadata =
     (if \<not> collection self then Inl (RuntimeError chroma_not_connected)
      else let chunks = split_text self text in
        if chunks = [] then
          Inr \<lparr>ir_doc_id = str_or_default doc_id [], ir_chunk_count = 0, ir_upsert = None\<rparr>
        else case embed_texts self create chunks of
          Inl e \<Rightarrow> Inl e
        | Inr embeddings \<Rightarrow>
            let base_id = base_id_of sha text doc_id namespace user_id;
                ids = chunk_ids sha base_id (length chunks);
                metadatas = map (chunk_metadata base_id namespace user_id tags extra_metadata)
                                [0..<length chunks];
                call = \<lparr>up_ids = ids, up_documents = chunks, up_metadatas = metadatas,
                        up_embeddings = embeddings\<rparr>
            in case upsert call of
                 Some e \<Rightarrow> Inl e
               | None \<Rightarrow> Inr \<lparr>ir_doc_id = base_id, ir_chunk_count = length chunks,
                              ir_upsert = Some call\<rparr>)"

section \<open>Data model (models.py)\<close>

text \<open>
  The pydantic models the modelled code reads or builds. Field names carry a prefix where
  two models share a name; the \<open>timestamp\<close> fields, which no modelled code reads, are left
  out. \<open>Any\<close> is a JSON value, \<open>float\<close> a real number.
\<close>

record FunctionDefinition =
  fd_name :: string
  fd_description :: string
  fd_parameters :: json

record FunctionCall =
  fc_name :: string
  fc_arguments :: string

record FunctionExecutionResult =
  function_name :: string
  result :: json
  success :: bool
  error :: "string option"
  execution_time :: "real option"

record TokenUsage =
  prompt_tokens :: int
  completion_tokens :: int
  total_tokens :: int

record ChatMessage =
  cm_role :: string
  cm_content :: string

record ChatRequest =
  cr_messages :: "ChatMessage list"
  cr_model :: string
  cr_user_id :: int
  cr_session_id :: "string option"
  cr_temperature :: "real option"
  cr_max_tokens :: "int option"
  cr_use_rag :: "bool option"
  cr_namespace :: "string option"
  cr_rag_top_k :: "int option"
  cr_tags :: "string list option"

record ChatResponse =
  resp_response :: string
  resp_model :: string
  resp_usage :: "TokenUsage option"
  resp_session_id :: "string option"

record ChatMessageWithFunction =
  mf_role :: string
  mf_content :: "string option"
  mf_function_call :: "FunctionCall option"
  mf_name :: "string option"

record ChatRequestWithFunctions =
  rf_messages :: "ChatMessageWithFunction list"
  rf_model :: string
  rf_user_id :: int
  rf_session_id :: "string option"
  rf_temperature :: "real option"
  rf_max_tokens :: "int option"
  rf_functions :: "FunctionDefinition list option"
  rf_function_call :: "string option"

record ChatResponseWithFunction =
  wf_response :: "string option"
  wf_model :: string
  wf_usage :: "TokenUsage option"
  wf_session_id :: "string option"
  wf_function_call :: "FunctionCall option"
  wf_function_result :: "FunctionExecutionResult option"
  wf_requires_function_call :: bool

section \<open>Function executor (functions.py)\<close>

text \<open>
  A handler takes the keyword arguments and returns a value or raises; what it raises
  may lie outside \<open>Exception\<close>, as the \<open>CancelledError\<close> of an awaited handler whose task is
  cancelled does. Whether it is a coroutine function, which \<open>execute\<close> tests to decide
  whether to await the call, makes no difference to the value or the exception that
  comes back, so the model has one kind of handler.
\<close>

type_synonym handler = "(string \<times> json) list \<Rightarrow> py_exception + json"

record FunctionExecutor =
  handlers :: "(string \<times> handler) list"
  defs :: "(string \<times> FunctionDefinition) list"

definition register :: "FunctionExecutor \<Rightarrow> FunctionDefinition \<Rightarrow> handler \<Rightarrow> FunctionExecutor" where
  "register self definition handler =
     self\<lparr>handlers := dict_set (handlers self) (fd_name definition) handler,
          defs := dict_set (defs self) (fd_name definition) definition\<rparr>"

definition list_defs_as_openai :: "FunctionExecutor \<Rightarrow> FunctionDefinition list" where
  "list_defs_as_openai self = map snd (defs self)"

definition not_registered_msg :: string where
  "not_registered_msg = [CHR 0xE5, CHR 0x87, CHR 0xBD, CHR 0xE6, CHR 0x95, CHR 0xB0, CHR 0xE6, CHR 0x9C, CHR 0xAA, CHR 0xE6, CHR 0xB3, CHR 0xA8, CHR 0xE5, CHR 0x86, CHR 0x8C, CHR 0x3A, CHR 0x20]"

definition parse_failed_msg :: string where
  "parse_failed_msg = [CHR 0xE5, CHR 0x8F, CHR 0x82, CHR 0xE6, CHR 0x95, CHR 0xB0, CHR 0xE8, CHR 0xA7, CHR 0xA3, CHR 0xE6, CHR 0x9E, CHR 0x90, CHR 0xE5, CHR 0xA4, CHR 0xB1, CHR 0xE8, CHR 0xB4, CHR 0xA5, CHR 0x3A, CHR 0x20]"

text \<open>An invocation of a registered handler: the name and the keyword arguments.\<close>

type_synonym invocation = "string \<times> (string \<times> json) list"

definition failure :: "FunctionCall \<Rightarrow> string \<Rightarrow> real \<Rightarrow> FunctionExecutionResult" where
  "failure call msg elapsed =
     \<lparr>function_name = fc_name call, result = JNull, success = False, error = Some msg,
      execution_time = Some elapsed\<rparr>"

definition not_a_mapping :: py_exception where
  "not_a_mapping = TypeError ''argument after ** must be a mapping''"

text \<open>
  An \<open>except Exception\<close> clause that returns \<open>r\<close>: an exception outside \<open>Exception\<close> is not
  caught and leaves the function.
\<close>

definition caught :: "py_exception \<Rightarrow> 'a \<Rightarrow> py_exception + 'a" where
  "caught e r = (if is_exception e then Inr r else Inl e)"

text \<open>
  \<open>execute\<close>. \<open>loads\<close> is \<open>json.loads\<close>; \<open>clock\<close> holds the two readings of \<open>time.time()\<close>, at
  entry and at the return that is taken. The outcome, the result returned or the
  exception that leaves \<open>execute\<close>, comes with the handler invocations made. A decoded
  argument value that is not a dictionary makes \<open>handler(**args)\<close> raise a \<open>TypeError\<close> before
  the handler runs.
\<close>

definition execute :: "(string \<Rightarrow> py_exception + json) \<Rightarrow> real \<times> real \<Rightarrow> FunctionExecutor
    \<Rightarrow> FunctionCall \<Rightarrow> (py_exception + FunctionExecutionResult) \<times> invocation list" where
  "execute loads clock self call =
     (let start = fst clock; elapsed = snd clock - start in
      case map_of (handlers self) (fc_name call) of
        None \<Rightarrow> (Inr (failure call (not_registered_msg @ fc_name call) elapsed), [])
      | Some handler \<Rightarrow>
          (case (if fc_arguments call \<noteq> [] then loads (fc_arguments call) else Inr (JObj [])) of
             Inl e \<Rightarrow> (caught e (failure call (parse_failed_msg @ str_e e) elapsed), [])
           | Inr (JObj args) \<Rightarrow>
               (case handler args of
                  Inl e \<Rightarrow> (caught e (failure call (str_e e) elapsed), [(fc_name call, args)])
                | Inr v \<Rightarrow>
                    (Inr \<lparr>function_name = fc_name call, result = v, success = True, error = None,
                          execution_time = Some elapsed\<rparr>, [(fc_name call, args)]))
           | Inr _ \<Rightarrow> (Inr (failure call (str_e not_a_mapping) elapsed), [])))"

section \<open>LLM service (llm\_service.py)\<close>

text \<open>One message of a request to the completion provider, and the request itself.\<close>

record message_dict =
  md_role :: string
  md_content :: string
  md_function_call :: "FunctionCall option"
  md_name :: "string option"

record completion_params =
  cp_model :: string
  cp_messages :: "message_dict list"
  cp_temperature :: real
  cp_max_tokens :: int
  cp_functions :: "FunctionDefinition list option"
  cp_function_call :: "string option"

text \<open>The provider's reply: the message of the first choice, and the usage.\<close>

record completion =
  co_content :: "string option"
  co_function_call :: "FunctionCall option"
  co_usage :: "TokenUsage option"

text \<open>
  What a call of the service does besides returning: the requests sent to the completion
  provider, each with its outcome, and the handlers invoked.
\<close>

datatype llm_event =
    Completion completion_params "py_exception + completion"
  | Invoked invocation

text \<open>
  The library functions and the collaborators the service reaches through module-level
  names: \<open>json.loads\<close>, \<open>json.dumps\<close>, \<open>repr\<close>, the two clock readings of one \<open>execute\<close>
  call, the global \<open>function_executor\<close>, and \<open>get_rag_service().query\<close>, taken by the list
  under \<open>"results"\<close> that it returns for a query, top\_k, namespace, user id and tags.
\<close>

record environment =
  json_loads :: "string \<Rightarrow> py_exception + json"
  json_dumps :: "json \<Rightarrow> string"
  py_repr :: "json \<Rightarrow> string"
  clock :: "real \<times> real"
  function_executor :: FunctionExecutor
  rag_query :: "string \<Rightarrow> int \<Rightarrow> string option \<Rightarrow> int \<Rightarrow> string list option
                  \<Rightarrow> py_exception + (string \<times> json) list list"

text \<open>
  The service. \<open>openai_client\<close> is \<open>chat.completions.create\<close> of the client, absent without
  an API key. \<open>supported\<close> is the answer of \<open>is_model_supported\<close>, which lists the models,
  filters them and catches every exception, so that it always returns a boolean.
\<close>

record LLMService =
  openai_client :: "(completion_params \<Rightarrow> py_exception + completion) option"
  rag_default_on :: bool
  rag_default_namespace :: "string option"
  supported :: "string \<Rightarrow> bool"

definition is_model_supported :: "LLMService \<Rightarrow> string \<Rightarrow> bool" where
  "is_model_supported self m = supported self m"

definition get_available_functions :: "environment \<Rightarrow> FunctionDefinition list" where
  "get_available_functions env = list_defs_as_openai (function_executor env)"

definition unsupported_model_msg :: string where
  "unsupported_model_msg = [CHR 0xE4, CHR 0xB8, CHR 0x8D, CHR 0xE6, CHR 0x94, CHR 0xAF, CHR 0xE6, CHR 0x8C, CHR 0x81, CHR 0xE7, CHR 0x9A, CHR 0x84, CHR 0xE6, CHR 0xA8, CHR 0xA1, CHR 0xE5, CHR 0x9E, CHR 0x8B, CHR 0x3A, CHR 0x20]"

definition no_api_key_msg :: string where
  "no_api_key_msg = [CHR 0x4F, CHR 0x70, CHR 0x65, CHR 0x6E, CHR 0x41, CHR 0x49, CHR 0x20, CHR 0x41, CHR 0x50, CHR 0x49, CHR 0x20, CHR 0x4B, CHR 0x65, CHR 0x79, CHR 0x20, CHR 0xE6, CHR 0x9C, CHR 0xAA, CHR 0xE9, CHR 0x85, CHR 0x8D, CHR 0xE7, CHR 0xBD, CHR 0xAE, CHR 0xEF, CHR 0xBC, CHR 0x8C, CHR 0xE6, CHR 0x97, CHR 0xA0, CHR 0xE6, CHR 0xB3, CHR 0x95, CHR 0xE8, CHR 0xB0, CHR 0x83, CHR 0xE7, CHR 0x94, CHR 0xA8, CHR 0x4C, CHR 0x4C, CHR 0x4D]"

text \<open>The placeholder of the second round.\<close>

definition done_msg :: string where
  "done_msg = [CHR 0xE5, CHR 0xA4, CHR 0x84, CHR 0xE7, CHR 0x90, CHR 0x86, CHR 0xE5, CHR 0xAE, CHR 0x8C, CHR 0xE6, CHR 0x88, CHR 0x90]"

text \<open>\<open>x or d\<close> on an optional number.\<close>

definition real_or :: "real option \<Rightarrow> real \<Rightarrow> real" where
  "real_or v d = (case v of None \<Rightarrow> d | Some x \<Rightarrow> if x = 0 then d else x)"

definition int_or :: "int option \<Rightarrow> int \<Rightarrow> int" where
  "int_or v d = (case v of None \<Rightarrow> d | Some x \<Rightarrow> if x = 0 then d else x)"

text \<open>The dictionary built for a message of the request in the first round.\<close>

definition first_round_dict :: "ChatMessageWithFunction \<Rightarrow> message_dict" where
  "first_round_dict msg =
     \<lparr>md_role = mf_role msg,
      md_content = str_or_default (mf_content msg) [],
      md_function_call = mf_function_call msg,
      md_name = (case mf_name msg of None \<Rightarrow> None | Some n \<Rightarrow> if n = [] then None else Some n)\<rparr>"

text \<open>The dictionary built for a message of the request in the second round.\<close>

definition follow_dict :: "ChatMessageWithFunction \<Rightarrow> message_dict" where
  "follow_dict m =
     \<lparr>md_role = mf_role m, md_content = str_or_default (mf_content m) [],
      md_function_call = None, md_name = None\<rparr>"

definition first_params :: "environment \<Rightarrow> ChatRequestWithFunctions \<Rightarrow> completion_params" where
  "first_params env request =
     (let msgs = map first_round_dict (rf_messages request);
          funcs = (case rf_functions request of
                     None \<Rightarrow> get_available_functions env
                   | Some fs \<Rightarrow> if fs \<noteq> [] then fs else get_available_functions env)
      in \<lparr>cp_model = rf_model request,
          cp_messages = msgs,
          cp_temperature = real_or (rf_temperature request) 0.7,
          cp_max_tokens = int_or (rf_max_tokens request) 1000,
          cp_functions = (if funcs \<noteq> [] then Some funcs else None),
          cp_function_call =
            (if funcs \<noteq> [] then Some (str_or_default (rf_function_call request) ''auto'') else None)\<rparr>)"

definition follow_params :: "environment \<Rightarrow> ChatRequestWithFunctions \<Rightarrow> FunctionCall
    \<Rightarrow> FunctionExecutionResult \<Rightarrow> completion_params" where
  "follow_params env request call res =
     (let follow_msgs = map follow_dict (rf_messages request)
            @ [\<lparr>md_role = ''assistant'', md_content = [], md_function_call = Some call,
                md_name = None\<rparr>]
            @ [\<lparr>md_role = ''function'', md_content = json_dumps env (result res),
                md_function_call = None, md_name = Some (fc_name call)\<rparr>]
      in \<lparr>cp_model = rf_model request,
          cp_messages = follow_msgs,
          cp_temperature = real_or (rf_temperature request) 0.7,
          cp_max_tokens = int_or (rf_max_tokens request) 1000,
          cp_functions = None,
          cp_function_call = None\<rparr>)"

definition add_usage :: "TokenUsage \<Rightarrow> TokenUsage \<Rightarrow> TokenUsage" where
  "add_usage u v =
     \<lparr>prompt_tokens = prompt_tokens u + prompt_tokens v,
      completion_tokens = completion_tokens u + completion_tokens v,
      total_tokens = total_tokens u + total_tokens v\<rparr>"

text \<open>Reading \<open>prompt_tokens\<close> of a reply that carries no usage.\<close>

definition no_usage_error :: py_exception where
  "no_usage_error = AttributeError ''NoneType object has no attribute prompt_tokens''"

text \<open>
  \<open>chat_with_functions\<close>, from the reply of the first round on, when that reply carries a
  function call.
\<close>

definition function_round :: "environment \<Rightarrow> (completion_params \<Rightarrow> py_exception + completion)
    \<Rightarrow> ChatRequestWithFunctions \<Rightarrow> TokenUsage \<Rightarrow> FunctionCall
    \<Rightarrow> (py_exception + ChatResponseWithFunction) \<times> llm_event list" where
  "function_round env create request usage fc =
     (let call = \<lparr>fc_name = fc_name fc, fc_arguments = fc_arguments fc\<rparr> in
      case execute (json_loads env) (clock env) (function_executor env) call of
        (Inl e, invs) \<Rightarrow> (Inl e, map Invoked invs)
      | (Inr res, invs) \<Rightarrow>
          let params2 = follow_params env request call res;
              trace = map Invoked invs @ [Completion params2 (create params2)]
          in case create params2 of
               Inl e \<Rightarrow> (Inl e, trace)
             | Inr resp2 \<Rightarrow>
                 (case co_usage resp2 of
                    None \<Rightarrow> (Inl no_usage_error, trace)
                  | Some usage2 \<Rightarrow>
                      (Inr \<lparr>wf_response = Some (str_or_default (co_content resp2) done_msg),
                            wf_model = rf_model request,
                            wf_usage = Some (add_usage usage usage2),
                            wf_session_id = rf_session_id request,
                            wf_function_call = Some call,
                            wf_function_result = Some res,
                            wf_requires_function_call = False\<rparr>, trace)))"

text \<open>\<open>chat_with_functions\<close>.\<close>

definition chat_with_functions :: "environment \<Rightarrow> LLMService \<Rightarrow> ChatRequestWithFunctions
    \<Rightarrow> (py_exception + ChatResponseWithFunction) \<times> llm_event list" where
  "chat_with_functions env self request =
     (if \<not> is_model_supported self (rf_model request) then
        (Inl (ValueError (unsupported_model_msg @ rf_model request)), [])
      else case openai_client self of
        None \<Rightarrow> (Inl (ValueError no_api_key_msg), [])
      | Some create \<Rightarrow>
          let params = first_params env request in
          (case create params of
             Inl e \<Rightarrow> (Inl e, [Completion params (Inl e)])
           | Inr resp \<Rightarrow>
               (case co_usage resp of
                  None \<Rightarrow> (Inl no_usage_error, [Completion params (Inr resp)])
                | Some usage \<Rightarrow>
                    (case co_function_call resp of
                       Some fc \<Rightarrow>
                         (let (r, trace) = function_round env create request usage fc
                          in (r, Completion params (Inr resp) # trace))
                     | None \<Rightarrow>
                         (Inr \<lparr>wf_response = Some (str_or_default (co_content resp) []),
                               wf_model = rf_model request,
                               wf_usage = Some usage,
                               wf_session_id = rf_session_id request,
                               wf_function_call = None,
                               wf_function_result = None,
                               wf_requires_function_call = False\<rparr>,
                          [Completion params (Inr resp)])))))"

subsection \<open>Retrieval context (the synchronous path)\<close>

definition rag_intro :: string where
  "rag_intro = [CHR 0xE4, CHR 0xBD, CHR 0xA0, CHR 0xE6, CHR 0x98, CHR 0xAF, CHR 0xE6, CHR 0xA3, CHR 0x80, CHR 0xE7, CHR 0xB4, CHR 0xA2, CHR 0xE5, CHR 0xA2, CHR 0x9E, CHR 0xE5, CHR 0xBC, CHR 0xBA, CHR 0xE5, CHR 0x8A, CHR 0xA9, CHR 0xE6, CHR 0x89, CHR 0x8B, CHR 0xE3, CHR 0x80, CHR 0x82, CHR 0xE4, CHR 0xBB, CHR 0xA5, CHR 0xE4, CHR 0xB8, CHR 0x8B, CHR 0xE6, CHR 0x98, CHR 0xAF, CHR 0xE5, CHR 0x8F, CHR 0x82, CHR 0xE8, CHR 0x80, CHR 0x83, CHR 0xE5, CHR 0x86, CHR 0x85, CHR 0xE5, CHR 0xAE, CHR 0xB9, CHR 0xEF, CHR 0xBC, CHR 0x88, CHR 0x5B, CHR 0x5D, CHR 0x20, CHR 0xE7, CHR 0xBC, CHR 0x96, CHR 0xE5, CHR 0x8F, CHR 0xB7, CHR 0xEF, CHR 0xBC, CHR 0x89, CHR 0xE3, CHR 0x80, CHR 0x82, CHR 0xE4, CHR 0xBC, CHR 0x98, CHR 0xE5, CHR 0x85, CHR 0x88, CHR 0xE4, CHR 0xBE, CHR 0x9D, CHR 0xE6, CHR 0x8D, CHR 0xAE, CHR 0xE5, CHR 0x8F, CHR 0x82, CHR 0xE8, CHR 0x80, CHR 0x83, CHR 0xE5, CHR 0x86, CHR 0x85, CHR 0xE5, CHR 0xAE, CHR 0xB9, CHR 0xE5, CHR 0x9B, CHR 0x9E, CHR 0xE7, CHR 0xAD, CHR 0x94, CHR 0xEF, CHR 0xBC, CHR 0x9B, CHR 0xE4, CHR 0xB8, CHR 0x8D, CHR 0xE7, CHR 0xA1, CHR 0xAE, CHR 0xE5, CHR 0xAE, CHR 0x9A, CHR 0xE6, CHR 0x97, CHR 0xB6, CHR 0xE8, CHR 0xAF, CHR 0xB4, CHR 0xE6, CHR 0x98, CHR 0x8E, CHR 0xE4, CHR 0xB8, CHR 0x8D, CHR 0xE7, CHR 0xA1, CHR 0xAE, CHR 0xE5, CHR 0xAE, CHR 0x9A, CHR 0xE3, CHR 0x80, CHR 0x82, CHR 0x0A]"

definition meta_not_a_dict :: py_exception where
  "meta_not_a_dict = AttributeError ''object has no attribute get''"

text \<open>
  One entry of the context message, for the result \<open>item\<close> at index \<open>i\<close>. A truthy
  \<open>metadata\<close> that is not a dictionary makes \<open>meta.get\<close> raise.
\<close>

definition snippet :: "(json \<Rightarrow> string) \<Rightarrow> nat \<Rightarrow> (string \<times> json) list \<Rightarrow> py_exception + string" where
  "snippet repr i item =
     (case py_or (dict_get item ''metadata'') (JObj []) of
        JObj meta \<Rightarrow>
          Inr (''['' @ str_nat (i + 1) @ ''] ns=''
               @ py_str repr (dict_get_default meta ''namespace'' (JStr []))
               @ '', doc='' @ py_str repr (dict_get_default meta ''doc_id'' (JStr []))
               @ '', idx='' @ py_str repr (dict_get_default meta ''chunk_index'' (JStr []))
               @ [CHR 0x0A] @ py_str repr (dict_get_default item ''content'' (JStr [])))
      | _ \<Rightarrow> Inl meta_not_a_dict)"

text \<open>The loop over the enumerated results, which stops at the first exception.\<close>

fun snippets_from :: "(json \<Rightarrow> string) \<Rightarrow> nat \<Rightarrow> (string \<times> json) list list
    \<Rightarrow> py_exception + string list" where
  "snippets_from repr i [] = Inr []"
| "snippets_from repr i (item # items) =
     (case snippet repr i item of
        Inl e \<Rightarrow> Inl e
      | Inr s \<Rightarrow> (case snippets_from repr (i + 1) items of
                    Inl e \<Rightarrow> Inl e
                  | Inr ss \<Rightarrow> Inr (s # ss)))"

text \<open>\<open>sep.join(xs)\<close>.\<close>

fun join :: "string \<Rightarrow> string list \<Rightarrow> string" where
  "join sep [] = []"
| "join sep [x] = x"
| "join sep (x # y # ys) = x @ sep @ join sep (y # ys)"

text \<open>\<open>_maybe_inject_rag_context\<close>.\<close>

definition maybe_inject_rag_context :: "environment \<Rightarrow> LLMService \<Rightarrow> ChatRequest
    \<Rightarrow> py_exception + ChatMessage list" where
  "maybe_inject_rag_context env self request =
     (let effective = (cr_use_rag request = Some True \<or> rag_default_on self) in
      if \<not> effective \<or> cr_messages request = [] then Inr (cr_messages request)
      else
        let q = cm_content (last (cr_messages request));
            ns = (case cr_namespace request of
                    None \<Rightarrow> rag_default_namespace self
                  | Some n \<Rightarrow> if n = [] then rag_default_namespace self else Some n);
            top_k = int_or (cr_rag_top_k request) 5
        in case rag_query env q top_k ns (cr_user_id request) (cr_tags request) of
             Inl e \<Rightarrow> Inl e
           | Inr results \<Rightarrow>
               (case snippets_from (py_repr env) 0 (py_slice results 0 top_k) of
                  Inl e \<Rightarrow> Inl e
                | Inr snippets \<Rightarrow>
                    if snippets = [] then Inr (cr_messages request)
                    else Inr (\<lparr>cm_role = ''system'',
                                cm_content = rag_intro @ join [CHR 0x0A, CHR 0x0A] snippets\<rparr>
                              # cr_messages request)))"

text \<open>
  \<open>_call_openai_api\<close> and \<open>chat_completion\<close>, with the requests sent to the provider. A
  reply without text cannot make a \<open>ChatResponse\<close>, whose \<open>response\<close> is a string.
\<close>

definition call_params :: "ChatRequest \<Rightarrow> ChatMessage list \<Rightarrow> completion_params" where
  "call_params request messages =
     \<lparr>cp_model = cr_model request,
      cp_messages = map (\<lambda>m. \<lparr>md_role = cm_role m, md_content = cm_content m,
                               md_function_call = None, md_name = None\<rparr>) messages,
      cp_temperature = real_or (cr_temperature request) 0.7,
      cp_max_tokens = int_or (cr_max_tokens request) 8192,
      cp_functions = None,
      cp_function_call = None\<rparr>"

definition response_not_a_string :: py_exception where
  "response_not_a_string = ValueError ''response: Input should be a valid string''"

definition chat_completion :: "environment \<Rightarrow> LLMService \<Rightarrow> ChatRequest
    \<Rightarrow> (py_exception + ChatResponse) \<times> llm_event list" where
  "chat_completion env self request =
     (if \<not> is_model_supported self (cr_model request) then
        (Inl (ValueError (unsupported_model_msg @ cr_model request)), [])
      else case openai_client self of
        None \<Rightarrow> (Inl (ValueError no_api_key_msg), [])
      | Some create \<Rightarrow>
          let messages = (case maybe_inject_rag_context env self request of
                            Inl e \<Rightarrow> cr_messages request
                          | Inr ms \<Rightarrow> ms);
              params = call_params request messages
          in case create params of
               Inl e \<Rightarrow> (Inl e, [Completion params (Inl e)])
             | Inr resp \<Rightarrow>
                 (case co_usage resp of
                    None \<Rightarrow> (Inl no_usage_error, [Completion params (Inr resp)])
                  | Some usage \<Rightarrow>
                      (case co_content resp of
                         None \<Rightarrow> (Inl response_not_a_string, [Completion params (Inr resp)])
                       | Some text \<Rightarrow>
                           (Inr \<lparr>resp_response = text, resp_model = cr_model request,
                                 resp_usage = Some usage,
                                 resp_session_id = cr_session_id request\<rparr>,
                            [Completion params (Inr resp)]))))"

section \<open>Queue consumer (worker\_mq.py)\<close>

record GenerateTask =
  request_id :: string
  session_id :: string
  user_id :: int
  model :: string
  last_user_message :: string
  history :: "json list option"
  use_rag :: json
  namespace :: json
  tags :: json

definition not_a_dict :: py_exception where
  "not_a_dict = AttributeError ''object has no attribute get''"

text \<open>\<open>GenerateTask.from_json\<close>; \<open>data.get\<close> raises when the decoded body is no dictionary.\<close>

definition from_json :: "(json \<Rightarrow> string) \<Rightarrow> json \<Rightarrow> py_exception + GenerateTask" where
  "from_json repr data =
     (case data of
        JObj d \<Rightarrow>
          (case py_int (dict_get d ''user_id'') of
             Inl e \<Rightarrow> Inl e
           | Inr uid \<Rightarrow>
               Inr \<lparr>request_id = py_str repr (py_or (dict_get d ''request_id'') (JStr [])),
                    session_id = py_str repr (py_or (dict_get d ''session_id'') (JStr [])),
                    user_id = uid,
                    model = py_str repr (py_or (dict_get d ''model'') (JStr [])),
                    last_user_message =
                      py_str repr (py_or (dict_get d ''last_user_message'') (JStr [])),
                    history = (case dict_get d ''history'' of JArr xs \<Rightarrow> Some xs | _ \<Rightarrow> None),
                    use_rag = dict_get d ''use_rag'',
                    namespace = dict_get d ''namespace'',
                    tags = dict_get d ''tags''\<rparr>)
      | _ \<Rightarrow> Inl not_a_dict)"

text \<open>The routing keys, at the defaults the module gives them.\<close>

definition ROUTING_GENERATE :: string where "ROUTING_GENERATE = ''chat.generate''"
definition ROUTING_RETRY :: string where "ROUTING_RETRY = ''chat.generate.retry''"
definition ROUTING_DLQ :: string where "ROUTING_DLQ = ''chat.generate.dlq''"
definition ROUTING_GENERATED :: string where "ROUTING_GENERATED = ''chat.generated''"

text \<open>
  A message as the consumer meets it: the headers, and the body, given by the value that
  \<open>json.loads(body.decode("utf-8"))\<close> returns, or \<open>None\<close> when that raises.
\<close>

record amqp_message =
  headers :: "(string \<times> json) list"
  body :: "json option"

text \<open>What handling one delivery does: calls of the service and publications.\<close>

datatype event =
    Llm llm_event
  | Published string amqp_message

definition not_encodable :: py_exception where
  "not_encodable = UnicodeEncodeError ''utf-8 codec cannot encode character: surrogates not allowed''"

text \<open>
  \<open>_publish\<close>: serialising and encoding the payload raises when it holds a lone surrogate;
  otherwise the message carries the serialised payload, which decodes to the payload
  again, and no headers. The broker is taken to accept it.
\<close>

definition publish :: "string \<Rightarrow> json \<Rightarrow> py_exception + event" where
  "publish routing_key payload =
     (if encodable payload then Inr (Published routing_key \<lparr>headers = [], body = Some payload\<rparr>)
      else Inl not_encodable)"

text \<open>
  One entry of \<open>history\<close>: the message it contributes, or nothing when it is skipped, by
  the test on role and content or by the \<open>except\<close> around an entry that is no dictionary.
\<close>

definition history_entry :: "(json \<Rightarrow> string) \<Rightarrow> json \<Rightarrow> ChatMessage option" where
  "history_entry repr it =
     (case py_or it (JObj []) of
        JObj d \<Rightarrow>
          (let role = strip (py_str repr (py_or (dict_get d ''role'') (JStr [])));
               content = py_str repr (py_or (dict_get d ''content'') (JStr []))
           in if role \<noteq> [] \<and> content \<noteq> [] then Some \<lparr>cm_role = role, cm_content = content\<rparr>
              else None)
      | _ \<Rightarrow> None)"

text \<open>The conversation \<open>_handle_message\<close> builds for a task.\<close>

definition build_messages :: "(json \<Rightarrow> string) \<Rightarrow> GenerateTask \<Rightarrow> ChatMessage list" where
  "build_messages repr task =
     (let single = [\<lparr>cm_role = ''user'', cm_content = last_user_message task\<rparr>] in
      case history task of
        None \<Rightarrow> single
      | Some h \<Rightarrow>
          if h = [] then single
          else let msgs = List.map_filter (history_entry repr) h
               in if msgs = [] then single else msgs)"

text \<open>The request \<open>_handle_message\<close> passes to \<open>chat_with_functions\<close>.\<close>

definition build_request :: "(json \<Rightarrow> string) \<Rightarrow> GenerateTask \<Rightarrow> ChatRequestWithFunctions" where
  "build_request repr task =
     \<lparr>rf_messages = map (\<lambda>m. \<lparr>mf_role = cm_role m, mf_content = Some (cm_content m),
                               mf_function_call = None, mf_name = None\<rparr>)
                        (build_messages repr task),
      rf_model = model task,
      rf_user_id = user_id task,
      rf_session_id = Some (session_id task),
      rf_temperature = Some 0.7,
      rf_max_tokens = None,
      rf_functions = None,
      rf_function_call = Some ''auto''\<rparr>"

definition usage_field :: "TokenUsage option \<Rightarrow> (TokenUsage \<Rightarrow> int) \<Rightarrow> json" where
  "usage_field u f = (case u of None \<Rightarrow> JInt 0 | Some v \<Rightarrow> JInt (f v))"

definition gen_payload :: "GenerateTask \<Rightarrow> ChatResponseWithFunction \<Rightarrow> json" where
  "gen_payload task resp =
     JObj [(''request_id'', JStr (request_id task)),
           (''session_id'', JStr (session_id task)),
           (''user_id'', JInt (user_id task)),
           (''model'', JStr (wf_model resp)),
           (''response'', (case wf_response resp of None \<Rightarrow> JNull | Some r \<Rightarrow> JStr r)),
           (''usage'', JObj [(''prompt_tokens'', usage_field (wf_usage resp) prompt_tokens),
                             (''completion_tokens'', usage_field (wf_usage resp) completion_tokens),
                             (''total_tokens'', usage_field (wf_usage resp) total_tokens)])]"

definition undecodable :: py_exception where
  "undecodable = ValueError ''Expecting value''"

definition invalid_payload :: py_exception where
  "invalid_payload = ValueError ''invalid payload: missing required fields''"

text \<open>\<open>_handle_message\<close>: the exception it raises, if any, and what it did.\<close>

definition handle_message :: "environment \<Rightarrow> LLMService \<Rightarrow> json option
    \<Rightarrow> py_exception option \<times> event list" where
  "handle_message env llm b =
     (case b of
        None \<Rightarrow> (Some undecodable, [])
      | Some data \<Rightarrow>
          (case from_json (py_repr env) data of
             Inl e \<Rightarrow> (Some e, [])
           | Inr task \<Rightarrow>
               if \<not> (request_id task \<noteq> [] \<and> session_id task \<noteq> [] \<and> user_id task \<noteq> 0
                      \<and> model task \<noteq> [] \<and> last_user_message task \<noteq> []) then
                 (Some invalid_payload, [])
               else
                 (case chat_with_functions env llm (build_request (py_repr env) task) of
                    (Inl e, trace) \<Rightarrow> (Some e, map Llm trace)
                  | (Inr resp, trace) \<Rightarrow>
                      (case publish ROUTING_GENERATED (gen_payload task resp) of
                         Inl e \<Rightarrow> (Some e, map Llm trace)
                       | Inr ev \<Rightarrow> (None, map Llm trace @ [ev])))))"

text \<open>
  The handler of \<open>asyncio.TimeoutError\<close> in \<open>run_consumer\<close>: what it publishes. A failure
  inside it is logged and publishes nothing.
\<close>

definition on_timeout :: "amqp_message \<Rightarrow> event list" where
  "on_timeout msg =
     (case body msg of
        None \<Rightarrow> []
      | Some payload \<Rightarrow>
          (case py_int (dict_get_default (headers msg) ''x-retry-count'' (JInt 0)) of
             Inl e \<Rightarrow> []
           | Inr n \<Rightarrow>
               (let retry = n + 1 in
                case payload of
                  JObj d \<Rightarrow>
                    (let payload' = JObj (dict_set d ''x-retry-count'' (JInt retry))
                     in if retry \<le> 5 then
                          (case publish ROUTING_RETRY payload' of Inl e \<Rightarrow> [] | Inr ev \<Rightarrow> [ev])
                        else
                          (case publish ROUTING_DLQ payload' of Inl e \<Rightarrow> [] | Inr ev \<Rightarrow> [ev]))
                | _ \<Rightarrow> [])))"

text \<open>The handler of every other \<open>Exception\<close>: what it publishes.\<close>

definition on_unrecoverable :: "amqp_message \<Rightarrow> event list" where
  "on_unrecoverable msg =
     (case body msg of
        None \<Rightarrow> []
      | Some payload \<Rightarrow>
          (case publish ROUTING_DLQ payload of Inl e \<Rightarrow> [] | Inr ev \<Rightarrow> [ev]))"

text \<open>
  The body of the loop of \<open>run_consumer\<close> for one delivery: the exception that leaves it,
  which neither handler catches, if any, and what was done.
\<close>

definition on_message :: "environment \<Rightarrow> LLMService \<Rightarrow> amqp_message
    \<Rightarrow> py_exception option \<times> event list" where
  "on_message env llm msg =
     (case handle_message env llm (body msg) of
        (None, evs) \<Rightarrow> (None, evs)
      | (Some e, evs) \<Rightarrow>
          (case e of
             AsyncioTimeoutError m \<Rightarrow> (None, evs @ on_timeout msg)
           | _ \<Rightarrow>
               if is_exception e then (None, evs @ on_unrecoverable msg)
               else (Some e, evs)))"

text \<open>
  Modelled from the spec: the retry queue of the broker, which is declared outside this
  repository. A message published to the retry topic flows back to the consumer as it
  was published once its TTL has run out. \<open>retry_chain n msg\<close> lists what the consumer
  publishes for a delivery and for the redeliveries that follow from it, \<open>n\<close> deliveries
  at most.
\<close>

fun retry_chain :: "environment \<Rightarrow> LLMService \<Rightarrow> nat \<Rightarrow> amqp_message \<Rightarrow> (string \<times> amqp_message) list" where
  "retry_chain env llm 0 msg = []"
| "retry_chain env llm (Suc n) msg =
     (case [(k, m). Published k m \<leftarrow> snd (on_message env llm msg)] of
        [] \<Rightarrow> []
      | (k, m) # _ \<Rightarrow>
          (k, m) # (if k = ROUTING_RETRY then retry_chain env llm n m else []))"

section \<open>Sample inputs\<close>

text \<open>
  Concrete collaborators for the closed statements below. \<open>sample_loads\<close> gives what
  \<open>json.loads\<close> gives for the three strings \<open>{}\<close>, \<open>{"x": NaN}\<close> and \<open>{\<close>, which are the ones that
  occur below; every other string is answered as a string without a JSON value at its
  start is. \<open>sample_dumps\<close> gives what \<open>json.dumps\<close> gives for \<open>None\<close>, booleans and integers,
  which are the values serialised below; every other value is answered as \<open>None\<close> is.
\<close>

definition sample_loads :: "string \<Rightarrow> py_exception + json" where
  \<open>sample_loads s =
     (if s = ''{}'' then Inr (JObj [])
      else if s = ''{"x": NaN}'' then Inr (JObj [(''x'', JFloat FNaN)])
      else if s = ''{'' then
        Inl (ValueError ''Expecting property name enclosed in double quotes: line 1 column 2 (char 1)'')
      else Inl (ValueError ''Expecting value: line 1 column 1 (char 0)''))\<close>

definition sample_dumps :: "json \<Rightarrow> string" where
  "sample_dumps v =
     (case v of
        JInt n \<Rightarrow> str_int n
      | JBool b \<Rightarrow> (if b then ''true'' else ''false'')
      | _ \<Rightarrow> ''null'')"

text \<open>A registry with one function, which takes no argument and returns a time stamp.\<close>

definition unix_time :: handler where
  "unix_time kwargs = (if kwargs = [] then Inr (JInt 1700000000)
                       else Inl (TypeError ''unix_time() got an unexpected keyword argument''))"

definition empty_executor :: FunctionExecutor where
  "empty_executor = \<lparr>handlers = [], defs = []\<rparr>"

definition sample_executor :: FunctionExecutor where
  "sample_executor =
     register empty_executor
       \<lparr>fd_name = ''unix_time'', fd_description = ''seconds since the epoch'',
        fd_parameters = JObj [(''type'', JStr ''object'')]\<rparr>
       unix_time"

text \<open>
  Two more functions: one that returns its arguments, and one that is awaited and whose
  task is cancelled meanwhile.
\<close>

definition echo :: handler where
  "echo kwargs = Inr (JObj kwargs)"

definition sleep :: handler where
  "sleep kwargs = Inl (CancelledError [])"

definition wide_executor :: FunctionExecutor where
  "wide_executor =
     register
       (register sample_executor
          \<lparr>fd_name = ''echo'', fd_description = ''returns its arguments'',
           fd_parameters = JObj [(''type'', JStr ''object'')]\<rparr>
          echo)
       \<lparr>fd_name = ''sleep'', fd_description = ''waits'',
        fd_parameters = JObj [(''type'', JStr ''object'')]\<rparr>
       sleep"

text \<open>
  A provider that asks for \<open>unix_time\<close> whenever functions are offered and answers in
  words otherwise, one that always answers in words, and one that always times out.
\<close>

definition sample_provider :: "completion_params \<Rightarrow> py_exception + completion" where
  "sample_provider p =
     (if cp_functions p \<noteq> None then
        Inr \<lparr>co_content = None,
             co_function_call = Some \<lparr>fc_name = ''unix_time'', fc_arguments = ''{}''\<rparr>,
             co_usage = Some \<lparr>prompt_tokens = 10, completion_tokens = 5, total_tokens = 15\<rparr>\<rparr>
      else
        Inr \<lparr>co_content = Some ''It is 1700000000.'',
             co_function_call = None,
             co_usage = Some \<lparr>prompt_tokens = 8, completion_tokens = 4, total_tokens = 12\<rparr>\<rparr>)"

definition direct_provider :: "completion_params \<Rightarrow> py_exception + completion" where
  "direct_provider p =
     Inr \<lparr>co_content = Some ''Hello.'', co_function_call = None,
          co_usage = Some \<lparr>prompt_tokens = 10, completion_tokens = 5, total_tokens = 15\<rparr>\<rparr>"

definition timeout_provider :: "completion_params \<Rightarrow> py_exception + completion" where
  "timeout_provider p = Inl (AsyncioTimeoutError ''timed out'')"

text \<open>A retrieval that finds one chunk for every query.\<close>

definition sample_rag_query :: "string \<Rightarrow> int \<Rightarrow> string option \<Rightarrow> int \<Rightarrow> string list option
    \<Rightarrow> py_exception + (string \<times> json) list list" where
  "sample_rag_query q top_k ns uid tgs =
     Inr [[(''id'', JStr ''c0''),
           (''content'', JStr ''The office opens at nine.''),
           (''score'', JInt 0),
           (''metadata'', JObj [(''namespace'', JStr ''kb''), (''doc_id'', JStr ''d1''),
                                (''chunk_index'', JInt 0)])]]"

definition sample_repr :: "json \<Rightarrow> string" where
  "sample_repr v = ''[]''"

definition sample_env :: environment where
  "sample_env =
     \<lparr>json_loads = sample_loads, json_dumps = sample_dumps, py_repr = sample_repr,
      clock = (10, 12), function_executor = sample_executor, rag_query = sample_rag_query\<rparr>"

definition all_supported :: "string \<Rightarrow> bool" where
  "all_supported m = True"

definition sample_llm :: LLMService where
  "sample_llm =
     \<lparr>openai_client = Some sample_provider, rag_default_on = True,
      rag_default_namespace = None, supported = all_supported\<rparr>"

definition direct_llm :: LLMService where
  "direct_llm = sample_llm\<lparr>openai_client := Some direct_provider\<rparr>"

definition timeout_llm :: LLMService where
  "timeout_llm = sample_llm\<lparr>openai_client := Some timeout_provider\<rparr>"

text \<open>A request with one user message.\<close>

definition sample_request :: ChatRequestWithFunctions where
  "sample_request =
     \<lparr>rf_messages = [\<lparr>mf_role = ''user'', mf_content = Some ''What time is it?'',
                       mf_function_call = None, mf_name = None\<rparr>],
      rf_model = ''gpt-4.1-nano'', rf_user_id = 7, rf_session_id = Some ''s1'',
      rf_temperature = Some 0.7, rf_max_tokens = None, rf_functions = None,
      rf_function_call = Some ''auto''\<rparr>"

text \<open>
  A request whose conversation holds an earlier function call and its result, as the
  endpoint \<open>/api/llm/chat-with-functions\<close> accepts it.
\<close>

definition followup_request :: ChatRequestWithFunctions where
  "followup_request =
     sample_request\<lparr>rf_messages :=
       [\<lparr>mf_role = ''user'', mf_content = Some ''What time is it?'',
         mf_function_call = None, mf_name = None\<rparr>,
        \<lparr>mf_role = ''assistant'', mf_content = None,
         mf_function_call = Some \<lparr>fc_name = ''unix_time'', fc_arguments = ''{}''\<rparr>,
         mf_name = None\<rparr>,
        \<lparr>mf_role = ''function'', mf_content = Some ''1700000000'',
         mf_function_call = None, mf_name = Some ''unix_time''\<rparr>,
        \<lparr>mf_role = ''user'', mf_content = Some ''And now?'',
         mf_function_call = None, mf_name = None\<rparr>]\<rparr>"

text \<open>The requests sent to the provider, and the replies received, in a trace.\<close>

fun requests :: "llm_event list \<Rightarrow> completion_params list" where
  "requests [] = []"
| "requests (Completion p r # evs) = p # requests evs"
| "requests (Invoked i # evs) = requests evs"

fun replies :: "llm_event list \<Rightarrow> completion list" where
  "replies [] = []"
| "replies (Completion p (Inr c) # evs) = c # replies evs"
| "replies (Completion p (Inl e) # evs) = replies evs"
| "replies (Invoked i # evs) = replies evs"

text \<open>A provider that asks for \<open>unix_time\<close> and has no text to add in the second round.\<close>

definition silent_provider :: "completion_params \<Rightarrow> py_exception + completion" where
  "silent_provider p =
     (if cp_functions p \<noteq> None then
        Inr \<lparr>co_content = None,
             co_function_call = Some \<lparr>fc_name = ''unix_time'', fc_arguments = ''{}''\<rparr>,
             co_usage = Some \<lparr>prompt_tokens = 10, completion_tokens = 5, total_tokens = 15\<rparr>\<rparr>
      else
        Inr \<lparr>co_content = None,
             co_function_call = None,
             co_usage = Some \<lparr>prompt_tokens = 8, completion_tokens = 4, total_tokens = 12\<rparr>\<rparr>)"

definition silent_llm :: LLMService where
  "silent_llm = sample_llm\<lparr>openai_client := Some silent_provider\<rparr>"



text \<open>The calls of the service among the events of a delivery.\<close>

fun llm_events :: "event list \<Rightarrow> llm_event list" where
  "llm_events [] = []"
| "llm_events (Llm e # evs) = e # llm_events evs"
| "llm_events (Published k m # evs) = llm_events evs"

text \<open>A task that asks for retrieval, the same task without its model, and their deliveries.\<close>

definition sample_task :: "(string \<times> json) list" where
  "sample_task =
     [(''request_id'', JStr ''r1''), (''session_id'', JStr ''s1''), (''user_id'', JInt 7),
      (''model'', JStr ''gpt-4.1-nano''),
      (''last_user_message'', JStr ''When does the office open?''),
      (''use_rag'', JBool True), (''namespace'', JStr ''kb'')]"



definition sample_delivery :: amqp_message where
  "sample_delivery = \<lparr>headers = [], body = Some (JObj sample_task)\<rparr>"

text \<open>The request of the synchronous endpoint for the same question, with retrieval.\<close>

definition sample_chat_request :: ChatRequest where
  "sample_chat_request =
     \<lparr>cr_messages = [\<lparr>cm_role = ''user'', cm_content = ''When does the office open?''\<rparr>],
      cr_model = ''gpt-4.1-nano'', cr_user_id = 7, cr_session_id = Some ''s1'',
      cr_temperature = Some 0.7, cr_max_tokens = None, cr_use_rag = Some True,
      cr_namespace = Some ''kb'', cr_rag_top_k = Some 5, cr_tags = None\<rparr>"

text \<open>The retry counter that a message carries in its body.\<close>

definition retry_count_of :: "amqp_message \<Rightarrow> json" where
  "retry_count_of m = (case body m of Some (JObj d) \<Rightarrow> dict_get d ''x-retry-count'' | _ \<Rightarrow> JNull)"

text \<open>The sample task as the consumer republishes it after a timeout.\<close>

definition retried_delivery :: amqp_message where
  "retried_delivery =
     \<lparr>headers = [], body = Some (JObj (sample_task @ [(''x-retry-count'', JInt 1)]))\<rparr>"

text \<open>
  Stand-ins for the digest, the embeddings provider and the collection: a digest that
  pads or cuts its input to 64 characters, one number per text, and an upsert that is
  accepted.
\<close>

definition toy_digest :: "string \<Rightarrow> string" where
  "toy_digest s = take 64 (s @ replicate 64 (CHR ''0''))"

definition unit_embeddings :: "string list \<Rightarrow> py_exception + nat list" where
  "unit_embeddings texts = Inr (map length texts)"

definition accept_upsert :: "nat upsert_call \<Rightarrow> py_exception option" where
  "accept_upsert c = None"

section \<open>Properties of the splitter\<close>

lemma div_add_stride: "0 < (s::nat) \<Longrightarrow> (j + s) div s = Suc (j div s)"
  by simp

lemma ceil_div_step:
  fixes s :: nat
  assumes "0 < s" "0 < m"
  shows "(m + s - 1) div s = Suc ((m - s + s - 1) div s)"
proof (cases "s \<le> m")
  case True
  have "m + s - 1 = (m - 1) + s" using assms by arith
  moreover have "m - s + s - 1 = m - 1" using True by arith
  ultimately show ?thesis
    using div_add_stride [OF assms(1), of "m - 1"] by presburger
next
  case False
  have "m + s - 1 = (m - 1) + s" using assms by arith
  then have "(m + s - 1) div s = Suc ((m - 1) div s)"
    using div_add_stride [OF assms(1), of "m - 1"] by presburger
  moreover have "(m - 1) div s = 0" using False assms by simp
  moreover have "(m - s + s - 1) div s = 0"
    using False assms by simp
  ultimately show ?thesis by simp
qed

lemma range_from_stop: "n \<le> i \<Longrightarrow> range_from i n s = []"
  by (subst range_from.simps) simp

lemma range_from_step: "0 < s \<Longrightarrow> i < n \<Longrightarrow> range_from i n s = i # range_from (i + s) n s"
  by (subst range_from.simps) simp

text \<open>The number of indices of a range is the length divided by the step, rounded up.\<close>

lemma range_from_length:
  "0 < s \<Longrightarrow> length (range_from i n s) = (n - i + s - 1) div s"
proof (induction i n s rule: range_from.induct)
  case (1 i n step)
  show ?case
  proof (cases "n \<le> i")
    case True
    then show ?thesis using "1.prems" by (simp add: range_from_stop)
  next
    case False
    then have "length (range_from i n step) = Suc (length (range_from (i + step) n step))"
      using "1.prems" by (simp add: range_from_step)
    also have "\<dots> = Suc ((n - (i + step) + step - 1) div step)"
      using "1.IH" False "1.prems" by simp
    also have "\<dots> = Suc ((n - i - step + step - 1) div step)"
      by simp
    also have "\<dots> = (n - i + step - 1) div step"
      using ceil_div_step [of step "n - i"] False "1.prems" by simp
    finally show ?thesis .
  qed
qed

lemma range_from_bound: "x \<in> set (range_from i n s) \<Longrightarrow> x < n"
proof (induction i n s rule: range_from.induct)
  case (1 i n step)
  show ?case
  proof (cases "step = 0 \<or> n \<le> i")
    case True
    then have "range_from i n step = []" by (subst range_from.simps) simp
    then show ?thesis using "1.prems" by simp
  next
    case False
    then have "range_from i n step = i # range_from (i + step) n step"
      by (subst range_from.simps) simp
    then show ?thesis using "1.prems" "1.IH" False by auto
  qed
qed

lemma range_from_nth:
  "0 < s \<Longrightarrow> k < length (range_from i n s) \<Longrightarrow> range_from i n s ! k = i + k * s"
proof (induction i n s arbitrary: k rule: range_from.induct)
  case (1 i n step)
  show ?case
  proof (cases "n \<le> i")
    case True
    then show ?thesis using "1.prems" by (simp add: range_from_stop)
  next
    case False
    then have unf: "range_from i n step = i # range_from (i + step) n step"
      using "1.prems" by (simp add: range_from_step)
    show ?thesis
    proof (cases k)
      case 0
      then show ?thesis by (simp add: unf)
    next
      case (Suc k')
      then have "k' < length (range_from (i + step) n step)"
        using "1.prems" unf by simp
      then have "range_from (i + step) n step ! k' = i + step + k' * step"
        using "1.IH" False "1.prems" by simp
      then show ?thesis using Suc by (simp add: unf)
    qed
  qed
qed

lemma take_min_length: "take (min (length ys) c) ys = take c ys"
  by (cases "c \<le> length ys") (simp_all add: min_def)

text \<open>A slice that starts inside the list is a window of the list.\<close>

lemma py_slice_window:
  assumes "i \<le> length xs" "0 \<le> c"
  shows "py_slice xs (int i) (int i + c) = take (nat c) (drop i xs)"
proof -
  have lo: "slice_index (length xs) (int i) = i"
    using assms by (simp add: slice_index_def)
  have hi: "slice_index (length xs) (int i + c) = min (length xs) (i + nat c)"
    using assms by (simp add: slice_index_def nat_add_distrib)
  have "min (length xs) (i + nat c) - i = min (length (drop i xs)) (nat c)"
    using assms by (simp add: min_def)
  then have "take (min (length xs) (i + nat c) - i) (drop i xs) = take (nat c) (drop i xs)"
    by (simp only: take_min_length)
  then show ?thesis
    by (simp add: py_slice_def lo hi)
qed

lemma split_text_windows:
  assumes "text \<noteq> []" "0 \<le> chunk_size self"
  shows "split_text self text =
         map (\<lambda>i. take (nat (chunk_size self)) (drop i text))
             (range_from 0 (length text) (nat (max 1 (chunk_size self - chunk_overlap self))))"
proof -
  have "py_slice text (int i) (int i + chunk_size self) = take (nat (chunk_size self)) (drop i text)"
    if "i \<in> set (range_from 0 (length text) (nat (max 1 (chunk_size self - chunk_overlap self))))" for i
    using range_from_bound [OF that] assms(2) by (simp add: py_slice_window)
  then show ?thesis
    using assms(1) by (simp add: split_text_def Let_def)
qed

text \<open>
  Windows of width \<open>c\<close> taken every \<open>s\<close> elements, with \<open>s \<le> c\<close>: the first \<open>s\<close> elements of
  every window but the last, then the last window, give the list back.
\<close>

lemma windows_reconstruct:
  assumes "0 < s" "s \<le> c"
  shows "n = length text \<Longrightarrow> i < n \<Longrightarrow>
         concat (map (take s) (butlast (map (\<lambda>j. take c (drop j text)) (range_from i n s))))
           @ last (map (\<lambda>j. take c (drop j text)) (range_from i n s)) = drop i text"
  using assms
proof (induction i n s rule: range_from.induct)
  case (1 i n step)
  let ?w = "\<lambda>j. take c (drop j text)"
  have unf: "range_from i n step = i # range_from (i + step) n step"
    using "1.prems" by (simp add: range_from_step)
  show ?case
  proof (cases "i + step < n")
    case True
    then have ne: "range_from (i + step) n step \<noteq> []"
      using "1.prems" by (simp add: range_from_step)
    have IH: "concat (map (take step) (butlast (map ?w (range_from (i + step) n step))))
                @ last (map ?w (range_from (i + step) n step)) = drop (i + step) text"
      using "1.IH" "1.prems" True by simp
    have hd: "take step (?w i) = take step (drop i text)"
      using "1.prems" by (simp add: min_def)
    have "concat (map (take step) (butlast (map ?w (range_from i n step))))
            @ last (map ?w (range_from i n step))
          = take step (drop i text) @ drop (i + step) text"
      using ne IH hd by (simp add: unf)
    also have "\<dots> = drop i text"
      by (metis add.commute append_take_drop_id drop_drop)
    finally show ?thesis .
  next
    case False
    then have "range_from (i + step) n step = []"
      by (simp add: range_from_stop)
    moreover have "?w i = drop i text"
      using False "1.prems" by simp
    ultimately show ?thesis by (simp add: unf)
  qed
qed

lemma split_text_length:
  assumes "text \<noteq> []" "0 \<le> chunk_size self"
  shows "length (split_text self text) =
         (length text + nat (max 1 (chunk_size self - chunk_overlap self)) - 1)
           div nat (max 1 (chunk_size self - chunk_overlap self))"
  using assms by (simp add: split_text_windows range_from_length)

lemma split_text_nth:
  assumes "text \<noteq> []" "0 \<le> chunk_size self" "k < length (split_text self text)"
  shows "split_text self text ! k =
         take (nat (chunk_size self))
              (drop (k * nat (max 1 (chunk_size self - chunk_overlap self))) text)"
proof -
  let ?s = "nat (max 1 (chunk_size self - chunk_overlap self))"
  have k: "k < length (range_from 0 (length text) ?s)"
    using assms by (simp add: split_text_windows)
  have "0 < ?s" by simp
  then have "range_from 0 (length text) ?s ! k = 0 + k * ?s"
    using k by (rule range_from_nth)
  then show ?thesis
    using assms(1,2) k by (simp add: split_text_windows)
qed

lemma split_text_reconstruct:
  assumes "text \<noteq> []" "0 \<le> chunk_overlap self" "chunk_overlap self < chunk_size self"
  shows "concat (map (take (nat (chunk_size self - chunk_overlap self)))
                     (butlast (split_text self text)))
           @ last (split_text self text) = text"
proof -
  let ?s = "nat (chunk_size self - chunk_overlap self)"
  have s: "nat (max 1 (chunk_size self - chunk_overlap self)) = ?s"
    using assms by simp
  have a: "0 < ?s" and b: "?s \<le> nat (chunk_size self)" and c: "0 < length text"
    using assms by simp_all
  from windows_reconstruct [OF a b refl c]
  show ?thesis
    using assms by (simp add: split_text_windows s)
qed

text \<open>
  C4, as the code has it. With a chunk size of 1000 and an overlap of 200, a text of
  length \<open>L > 0\<close> is cut into \<open>ceil(L / 800)\<close> chunks; chunk \<open>k\<close> has \<open>min 1000 (L - 800 k)\<close>
  characters, so that no chunk is longer than 1000, every chunk before the last two has
  exactly 1000 and every chunk before the last has at least 800; the first 800 characters
  of every chunk but the last, followed by the last chunk, are the text; and the empty
  text has no chunks.
\<close>

theorem split_text_default:
  assumes "chunk_size self = 1000" "chunk_overlap self = 200" "(text :: 'a list) \<noteq> []"
  shows "length (split_text self text) = (length text + 799) div 800
       \<and> (\<forall>k < length (split_text self text).
             length (split_text self text ! k) = min 1000 (length text - 800 * k))
       \<and> (\<forall>c \<in> set (split_text self text). length c \<le> 1000)
       \<and> (\<forall>k. k + 2 < length (split_text self text) \<longrightarrow>
             length (split_text self text ! k) = 1000)
       \<and> (\<forall>k. k + 1 < length (split_text self text) \<longrightarrow>
             800 \<le> length (split_text self text ! k))
       \<and> concat (map (take 800) (butlast (split_text self text))) @ last (split_text self text) = text
       \<and> split_text self ([] :: 'a list) = []"
proof -
  let ?cs = "split_text self text"
  have len: "length ?cs = (length text + 799) div 800"
    using split_text_length [of "text" self] assms by simp
  have nth: "length (?cs ! k) = min 1000 (length text - 800 * k)" if "k < length ?cs" for k
    using split_text_nth [of "text" self k] assms that by (simp add: mult.commute)
  have bound: "length c \<le> 1000" if "c \<in> set ?cs" for c
  proof -
    from that obtain k where "k < length ?cs" "c = ?cs ! k"
      by (auto simp: in_set_conv_nth)
    then show ?thesis using nth by simp
  qed
  have full: "length (?cs ! k) = 1000" if "k + 2 < length ?cs" for k
  proof -
    have "800 * k + 2400 \<le> length text + 799" using that len by arith
    then have "min 1000 (length text - 800 * k) = 1000" by arith
    moreover have "k < length ?cs" using that by simp
    ultimately show ?thesis using nth by simp
  qed
  have most: "800 \<le> length (?cs ! k)" if "k + 1 < length ?cs" for k
  proof -
    have "800 * k + 1600 \<le> length text + 799" using that len by arith
    then have "800 \<le> min 1000 (length text - 800 * k)" by arith
    moreover have "k < length ?cs" using that by simp
    ultimately show ?thesis using nth by simp
  qed
  have rec: "concat (map (take 800) (butlast ?cs)) @ last ?cs = text"
    using split_text_reconstruct [of "text" self] assms by simp
  have "split_text self ([] :: 'a list) = []"
    by (simp add: split_text_def)
  with len nth bound full most rec show ?thesis by blast
qed

text \<open>A text of 2500 characters: four chunks, of 1000, 1000, 900 and 100 characters.\<close>

theorem split_text_default_witness:
  "length (split_text default_rag (replicate 2500 (CHR ''a''))) = 4
   \<and> map length (split_text default_rag (replicate 2500 (CHR ''a''))) = [1000, 1000, 900, 100]"
proof -
  let ?cs = "split_text default_rag (replicate 2500 (CHR ''a''))"
  have a: "chunk_size default_rag = 1000" "chunk_overlap default_rag = 200"
    "replicate 2500 (CHR ''a'') \<noteq> []"
    by (simp_all add: default_rag_def)
  note t = split_text_default [OF a]
  have l: "length ?cs = 4" using t by simp
  have n: "\<forall>k < length ?cs. length (?cs ! k) = min 1000 (length (replicate 2500 (CHR ''a'')) - 800 * k)"
    using t by blast
  have "length (?cs ! 0) = 1000" "length (?cs ! 1) = 1000" "length (?cs ! 2) = 900"
    "length (?cs ! 3) = 100"
    using n l by simp_all
  moreover have "map length ?cs = [length (?cs ! 0), length (?cs ! 1), length (?cs ! 2), length (?cs ! 3)]"
    using l by (intro nth_equalityI) (auto simp: less_Suc_eq numeral_eq_Suc)
  ultimately show ?thesis using l by simp
qed

text \<open>
  A text of 1700 characters is cut into three chunks, and the second, which is not the
  last, has 900 characters: not only the final chunk is shorter than 1000.
\<close>

theorem split_text_short_penultimate:
  "length (split_text default_rag (replicate 1700 (CHR ''a''))) = 3
   \<and> length (split_text default_rag (replicate 1700 (CHR ''a'')) ! 1) = 900"
proof -
  let ?t = "replicate 1700 (CHR ''a'')"
  have ne: "?t \<noteq> []" by simp
  have cs: "0 \<le> chunk_size default_rag" by (simp add: default_rag_def)
  have l: "length (split_text default_rag ?t) = 3"
    using split_text_length [OF ne cs] by (simp add: default_rag_def)
  then have "1 < length (split_text default_rag ?t)" by simp
  from split_text_nth [OF ne cs this]
  have "length (split_text default_rag ?t ! 1) = 900"
    by (simp add: default_rag_def)
  with l show ?thesis by simp
qed

section \<open>Properties of the function executor\<close>

lemma execute_unregistered_eq:
  assumes "map_of (handlers self) (fc_name call) = None"
  shows "execute loads clk self call =
         (Inr (failure call (not_registered_msg @ fc_name call) (snd clk - fst clk)), [])"
  using assms by (simp add: execute_def Let_def)

lemma execute_parse_failure_eq:
  assumes "map_of (handlers self) (fc_name call) = Some h"
    and "fc_arguments call \<noteq> []" and "loads (fc_arguments call) = Inl e"
    and "is_exception e"
  shows "execute loads clk self call =
         (Inr (failure call (parse_failed_msg @ str_e e) (snd clk - fst clk)), [])"
  using assms by (simp add: execute_def caught_def Let_def)

text \<open>
  What \<open>execute\<close> does for any call. It returns a result that names the call, has an error
  exactly when it failed and carries the difference of the two clock readings; or it
  raises: the exception lies outside \<open>Exception\<close> and came from \<open>json.loads\<close> or from the
  handler, which was invoked.
\<close>

lemma execute_outcome:
  "case fst (execute loads clk self c) of
     Inr r \<Rightarrow> function_name r = fc_name c
             \<and> (success r \<longleftrightarrow> error r = None)
             \<and> execution_time r = Some (snd clk - fst clk)
   | Inl x \<Rightarrow> \<not> is_exception x
             \<and> (\<exists>h. map_of (handlers self) (fc_name c) = Some h
                    \<and> ((fc_arguments c \<noteq> [] \<and> loads (fc_arguments c) = Inl x
                         \<and> snd (execute loads clk self c) = [])
                        \<or> (\<exists>kw. h kw = Inl x \<and> snd (execute loads clk self c) = [(fc_name c, kw)])))"
  by (auto simp: execute_def caught_def Let_def failure_def
           split: option.split sum.split json.split if_splits)

lemma execute_empty_arguments:
  assumes "fc_arguments c = []" and "map_of (handlers self) (fc_name c) = Some h"
  shows "snd (execute loads clk self c) = [(fc_name c, [])]"
  using assms by (simp add: execute_def Let_def split: sum.split)

text \<open>
  C9, as the code has it. For a call whose name is not registered, \<open>execute\<close> returns a
  result with \<open>success = False\<close>, the error \<open>not_registered_msg\<close> (the source's Chinese text
  for "function not registered: ") followed by the name, the name of the call as
  \<open>function_name\<close>, and the difference of the two clock readings as \<open>execution_time\<close>, which
  is not negative when the clock has not been set back in between; no handler is invoked.
\<close>

theorem execute_unregistered:
  assumes "map_of (handlers self) (fc_name call) = None" and "fst clk \<le> snd clk"
  shows "\<exists>r. execute loads clk self call = (Inr r, [])
           \<and> success r = False
           \<and> error r = Some (not_registered_msg @ fc_name call)
           \<and> function_name r = fc_name call
           \<and> (\<exists>t. execution_time r = Some t \<and> 0 \<le> t)
           \<and> execution_time r = Some (snd clk - fst clk)"
  using assms by (simp add: execute_unregistered_eq failure_def)

theorem execute_unregistered_witness:
  "execute sample_loads (10, 12) sample_executor \<lparr>fc_name = ''weather'', fc_arguments = ''{}''\<rparr>
     = (Inr \<lparr>function_name = ''weather'', result = JNull, success = False,
             error = Some (not_registered_msg @ ''weather''), execution_time = Some 2\<rparr>, [])"
proof -
  have a: "map_of (handlers sample_executor) (fc_name \<lparr>fc_name = ''weather'', fc_arguments = ''{}''\<rparr>) = None"
    by (simp add: sample_executor_def register_def empty_executor_def)
  have b: "fst (10::real, 12::real) \<le> snd (10::real, 12::real)" by simp
  from execute_unregistered [where loads = sample_loads, OF a b]
  obtain r where r: "execute sample_loads (10, 12) sample_executor
                       \<lparr>fc_name = ''weather'', fc_arguments = ''{}''\<rparr> = (Inr r, [])"
    and s: "success r = False" and e: "error r = Some (not_registered_msg @ ''weather'')"
    and f: "function_name r = ''weather''"
    by auto
  have "execute sample_loads (10, 12) sample_executor
          \<lparr>fc_name = ''weather'', fc_arguments = ''{}''\<rparr>
        = (Inr (failure \<lparr>fc_name = ''weather'', fc_arguments = ''{}''\<rparr>
                  (not_registered_msg @ ''weather'') 2), [])"
    using a by (simp add: execute_unregistered_eq)
  with r have "execution_time r = Some 2" "result r = JNull"
    by (auto simp: failure_def)
  with s e f have "r = \<lparr>function_name = ''weather'', result = JNull, success = False,
             error = Some (not_registered_msg @ ''weather''), execution_time = Some 2\<rparr>"
    by (cases r) simp
  with r show ?thesis by simp
qed

text \<open>
  The error for an unregistered name is the source's own text, not the English sentence
  \<open>function not registered: weather\<close>.
\<close>

theorem execute_unregistered_text:
  "fst (execute sample_loads (10, 12) sample_executor
          \<lparr>fc_name = ''weather'', fc_arguments = ''{}''\<rparr>)
     = Inr \<lparr>function_name = ''weather'', result = JNull, success = False,
            error = Some (not_registered_msg @ ''weather''), execution_time = Some 2\<rparr>
   \<and> not_registered_msg @ ''weather'' \<noteq> ''function not registered: '' @ ''weather''"
proof -
  have "map_of (handlers sample_executor) ''weather'' = None"
    by (simp add: sample_executor_def register_def empty_executor_def)
  then show ?thesis
    by (simp add: execute_unregistered_eq failure_def not_registered_msg_def)
qed

text \<open>
  C3, as the code has it. For a call whose argument string is not empty and makes
  \<open>json.loads\<close> raise (an \<open>Exception\<close>, as its \<open>JSONDecodeError\<close> is), \<open>execute\<close> returns a
  result with \<open>success = False\<close>, an error, and the difference of the two clock readings as
  \<open>execution_time\<close>, not negative when the clock has not been set back; no handler is
  invoked. The error is \<open>parse_failed_msg\<close> followed by the text of the exception when the
  name is registered; when it is not, the registration test comes first and the error is
  \<open>not_registered_msg\<close> followed by the name. For every call, \<open>execute\<close> either returns a
  result that names the call and has an error exactly when \<open>success\<close> is false, or raises
  an exception that lies outside \<open>Exception\<close> and that \<open>json.loads\<close> or the invoked handler
  raised: nothing else leaves it. An empty argument string is treated as the empty
  dictionary: the registered handler is invoked with no keyword argument.
\<close>

theorem execute_malformed_arguments:
  assumes "fc_arguments call \<noteq> []" and "loads (fc_arguments call) = Inl e"
    and "is_exception e" and "fst clk \<le> snd clk"
  shows "(\<exists>r. execute loads clk self call = (Inr r, [])
            \<and> success r = False \<and> error r \<noteq> None
            \<and> execution_time r = Some (snd clk - fst clk) \<and> 0 \<le> snd clk - fst clk
            \<and> (map_of (handlers self) (fc_name call) \<noteq> None \<longrightarrow>
                 error r = Some (parse_failed_msg @ str_e e))
            \<and> (map_of (handlers self) (fc_name call) = None \<longrightarrow>
                 error r = Some (not_registered_msg @ fc_name call)))
       \<and> (\<forall>c :: FunctionCall. case fst (execute loads clk self c) of
                 Inr r \<Rightarrow> function_name r = fc_name c
                         \<and> (success r \<longleftrightarrow> error r = None)
                         \<and> execution_time r = Some (snd clk - fst clk)
               | Inl x \<Rightarrow> \<not> is_exception x
                         \<and> (\<exists>h. map_of (handlers self) (fc_name c) = Some h
                                \<and> ((fc_arguments c \<noteq> [] \<and> loads (fc_arguments c) = Inl x
                                     \<and> snd (execute loads clk self c) = [])
                                    \<or> (\<exists>kw. h kw = Inl x
                                          \<and> snd (execute loads clk self c) = [(fc_name c, kw)]))))
       \<and> (\<forall>(c :: FunctionCall) h. fc_arguments c = [] \<and> map_of (handlers self) (fc_name c) = Some h \<longrightarrow>
              snd (execute loads clk self c) = [(fc_name c, [])])"
proof (intro conjI allI impI)
  show "\<exists>r. execute loads clk self call = (Inr r, [])
            \<and> success r = False \<and> error r \<noteq> None
            \<and> execution_time r = Some (snd clk - fst clk) \<and> 0 \<le> snd clk - fst clk
            \<and> (map_of (handlers self) (fc_name call) \<noteq> None \<longrightarrow>
                 error r = Some (parse_failed_msg @ str_e e))
            \<and> (map_of (handlers self) (fc_name call) = None \<longrightarrow>
                 error r = Some (not_registered_msg @ fc_name call))"
  proof (cases "map_of (handlers self) (fc_name call)")
    case None
    then show ?thesis
      using assms(4) by (simp add: execute_unregistered_eq failure_def)
  next
    case (Some h)
    then show ?thesis
      using assms(4)
      by (simp add: execute_parse_failure_eq [where loads = loads, OF Some assms(1) assms(2) assms(3)]
            failure_def)
  qed
next
  fix c :: FunctionCall
  show "case fst (execute loads clk self c) of
                 Inr r \<Rightarrow> function_name r = fc_name c
                         \<and> (success r \<longleftrightarrow> error r = None)
                         \<and> execution_time r = Some (snd clk - fst clk)
               | Inl x \<Rightarrow> \<not> is_exception x
                         \<and> (\<exists>h. map_of (handlers self) (fc_name c) = Some h
                                \<and> ((fc_arguments c \<noteq> [] \<and> loads (fc_arguments c) = Inl x
                                     \<and> snd (execute loads clk self c) = [])
                                    \<or> (\<exists>kw. h kw = Inl x
                                          \<and> snd (execute loads clk self c) = [(fc_name c, kw)])))"
    by (rule execute_outcome)
next
  fix c :: FunctionCall and h
  assume "fc_arguments c = [] \<and> map_of (handlers self) (fc_name c) = Some h"
  then show "snd (execute loads clk self c) = [(fc_name c, [])]"
    by (simp add: execute_empty_arguments)
qed

text \<open>
  The registered \<open>unix_time\<close> with the argument string \<open>{\<close>: the error is the parse failure
  with the text of \<open>json.loads\<close>, and the handler is not invoked; with the empty argument
  string it is invoked with no argument.
\<close>

theorem execute_malformed_arguments_witness:
  "execute sample_loads (10, 12) sample_executor \<lparr>fc_name = ''unix_time'', fc_arguments = ''{''\<rparr>
     = (Inr \<lparr>function_name = ''unix_time'', result = JNull, success = False,
             error = Some (parse_failed_msg
                @ ''Expecting property name enclosed in double quotes: line 1 column 2 (char 1)''),
             execution_time = Some 2\<rparr>, [])
   \<and> snd (execute sample_loads (10, 12) sample_executor
            \<lparr>fc_name = ''unix_time'', fc_arguments = []\<rparr>) = [(''unix_time'', [])]"
proof -
  let ?c = "\<lparr>fc_name = ''unix_time'', fc_arguments = ''{''\<rparr>"
  let ?m = "''Expecting property name enclosed in double quotes: line 1 column 2 (char 1)''"
  have a: "fc_arguments ?c \<noteq> []" by simp
  have b: "sample_loads (fc_arguments ?c) = Inl (ValueError ?m)"
    by (simp add: sample_loads_def)
  have c: "is_exception (ValueError ?m)" by simp
  have d: "fst (10::real, 12::real) \<le> snd (10::real, 12::real)" by simp
  have reg: "map_of (handlers sample_executor) ''unix_time'' = Some unix_time"
    by (simp add: sample_executor_def register_def empty_executor_def)
  note t = execute_malformed_arguments [where loads = sample_loads and self = sample_executor,
      OF a b c d]
  from t obtain r where r: "execute sample_loads (10, 12) sample_executor ?c = (Inr r, [])"
    and s: "success r = False" and x: "execution_time r = Some (snd (10::real, 12::real) - fst (10::real, 12::real))"
    and e: "map_of (handlers sample_executor) (fc_name ?c) \<noteq> None \<longrightarrow>
              error r = Some (parse_failed_msg @ str_e (ValueError ?m))"
    by blast
  have n: "snd (execute sample_loads (10, 12) sample_executor
                  \<lparr>fc_name = ''unix_time'', fc_arguments = []\<rparr>) = [(''unix_time'', [])]"
    using t reg by simp
  have o: "function_name r = ''unix_time''"
    using execute_outcome [where loads = sample_loads and clk = "(10, 12)"
        and self = sample_executor and c = ?c] r by simp
  have "execute sample_loads (10, 12) sample_executor ?c
          = (Inr (failure ?c (parse_failed_msg @ str_e (ValueError ?m)) 2), [])"
    using execute_parse_failure_eq [where loads = sample_loads and clk = "(10, 12)", OF _ a b c]
      reg by simp
  with r have p: "result r = JNull" by (auto simp: failure_def)
  have "r = \<lparr>function_name = ''unix_time'', result = JNull, success = False,
             error = Some (parse_failed_msg @ ?m), execution_time = Some 2\<rparr>"
    using s x e reg o p by (cases r) simp
  with r n show ?thesis by simp
qed

text \<open>
  Where the claim fails. With a name that is not registered, the error for the argument
  string \<open>{\<close> reports the missing registration, not the parse failure. A handler whose
  task is cancelled raises \<open>CancelledError\<close>, which \<open>execute\<close> does not catch: it raises. The
  argument string \<open>{"x": NaN}\<close> is not valid JSON, but \<open>json.loads\<close> accepts it: the handler
  is invoked and the call succeeds. And with a clock that was set back between the two
  readings the execution time is negative.
\<close>

theorem execute_malformed_claim_fails:
  \<open>fst (execute sample_loads (10, 12) wide_executor \<lparr>fc_name = ''weather'', fc_arguments = ''{''\<rparr>)
     = Inr \<lparr>function_name = ''weather'', result = JNull, success = False,
            error = Some (not_registered_msg @ ''weather''), execution_time = Some 2\<rparr>
   \<and> fst (execute sample_loads (10, 12) wide_executor \<lparr>fc_name = ''sleep'', fc_arguments = ''{}''\<rparr>)
       = Inl (CancelledError [])
   \<and> execute sample_loads (10, 12) wide_executor
         \<lparr>fc_name = ''echo'', fc_arguments = ''{"x": NaN}''\<rparr>
       = (Inr \<lparr>function_name = ''echo'', result = JObj [(''x'', JFloat FNaN)], success = True,
               error = None, execution_time = Some 2\<rparr>,
          [(''echo'', [(''x'', JFloat FNaN)])])
   \<and> fst (execute sample_loads (12, 10) wide_executor \<lparr>fc_name = ''unix_time'', fc_arguments = ''{''\<rparr>)
       = Inr \<lparr>function_name = ''unix_time'', result = JNull, success = False,
              error = Some (parse_failed_msg
                @ ''Expecting property name enclosed in double quotes: line 1 column 2 (char 1)''),
              execution_time = Some (- 2)\<rparr>\<close>
  by (simp add: execute_def caught_def failure_def Let_def wide_executor_def sample_executor_def
        empty_executor_def register_def sample_loads_def echo_def sleep_def unix_time_def)

section \<open>Properties of the completion rounds\<close>

lemma requests_append: "requests (xs @ ys) = requests xs @ requests ys"
  by (induction xs rule: requests.induct) simp_all

lemma replies_append: "replies (xs @ ys) = replies xs @ replies ys"
  by (induction xs rule: replies.induct) simp_all

lemma requests_Invoked: "requests (map Invoked invs) = []"
  by (induction invs) simp_all

lemma replies_Invoked: "replies (map Invoked invs) = []"
  by (induction invs) simp_all

text \<open>What a successful second round consists of.\<close>

lemma function_round_Inr:
  assumes "function_round env create request usage fc = (Inr r, trace)"
  obtains res invs c2 u2 where
    "execute (json_loads env) (clock env) (function_executor env)
       \<lparr>fc_name = fc_name fc, fc_arguments = fc_arguments fc\<rparr> = (Inr res, invs)"
    "create (follow_params env request \<lparr>fc_name = fc_name fc, fc_arguments = fc_arguments fc\<rparr> res) = Inr c2"
    "co_usage c2 = Some u2"
    "trace = map Invoked invs
             @ [Completion (follow_params env request \<lparr>fc_name = fc_name fc, fc_arguments = fc_arguments fc\<rparr> res)
                           (Inr c2)]"
    "r = \<lparr>wf_response = Some (str_or_default (co_content c2) done_msg),
          wf_model = rf_model request,
          wf_usage = Some (add_usage usage u2),
          wf_session_id = rf_session_id request,
          wf_function_call = Some \<lparr>fc_name = fc_name fc, fc_arguments = fc_arguments fc\<rparr>,
          wf_function_result = Some res,
          wf_requires_function_call = False\<rparr>"
  using assms
  by (auto simp: function_round_def Let_def split: prod.splits sum.splits option.splits)

text \<open>What a successful call of \<open>chat_with_functions\<close> consists of.\<close>

lemma chat_with_functions_Inr:
  assumes "chat_with_functions env self request = (Inr r, trace)"
  obtains (direct) create c u where
      "openai_client self = Some create"
      "create (first_params env request) = Inr c"
      "co_usage c = Some u" "co_function_call c = None"
      "trace = [Completion (first_params env request) (Inr c)]"
      "r = \<lparr>wf_response = Some (str_or_default (co_content c) []),
            wf_model = rf_model request, wf_usage = Some u,
            wf_session_id = rf_session_id request, wf_function_call = None,
            wf_function_result = None, wf_requires_function_call = False\<rparr>"
  | (called) create c u fc trace' where
      "openai_client self = Some create"
      "create (first_params env request) = Inr c"
      "co_usage c = Some u" "co_function_call c = Some fc"
      "function_round env create request u fc = (Inr r, trace')"
      "trace = Completion (first_params env request) (Inr c) # trace'"
  using assms
  by (auto simp: chat_with_functions_def Let_def
           split: if_splits sum.splits option.splits prod.splits)

lemmas sample_defs = sample_env_def sample_llm_def sample_request_def sample_provider_def
  sample_executor_def empty_executor_def register_def unix_time_def sample_loads_def
  sample_dumps_def all_supported_def

lemmas chat_defs = chat_with_functions_def function_round_def first_params_def
  follow_params_def first_round_dict_def follow_dict_def execute_def caught_def
  is_model_supported_def
  get_available_functions_def list_defs_as_openai_def real_or_def int_or_def
  str_or_default_def add_usage_def failure_def Let_def

text \<open>The two requests of a call in which the provider asked for a function.\<close>

lemma function_round_requests:
  assumes "function_round env create request usage fc = (Inr r, trace)"
  shows "\<exists>res c2. requests trace = [follow_params env request \<lparr>fc_name = fc_name fc, fc_arguments = fc_arguments fc\<rparr> res]
           \<and> replies trace = [c2]
           \<and> fst (execute (json_loads env) (clock env) (function_executor env)
                     \<lparr>fc_name = fc_name fc, fc_arguments = fc_arguments fc\<rparr>) = Inr res
           \<and> wf_function_result r = Some res"
  using assms
  by (rule function_round_Inr)
     (simp add: requests_append replies_append requests_Invoked replies_Invoked)

text \<open>
  C6. When \<open>chat_with_functions\<close> returns a response, its usage is the sum, field by field,
  of the usages of the rounds issued: one round, whose reply carries no function call,
  when the response has no function call, and two rounds, the first of which asked for
  the function, when it has one. The event the consumer publishes for the response
  carries that usage.
\<close>

theorem usage_is_sum_of_rounds:
  assumes "chat_with_functions env self request = (Inr r, trace)"
  shows "(wf_function_call r = None \<longrightarrow>
            (\<exists>c u. replies trace = [c] \<and> length (requests trace) = 1
                  \<and> co_function_call c = None \<and> co_usage c = Some u \<and> wf_usage r = Some u))
       \<and> (wf_function_call r \<noteq> None \<longrightarrow>
            (\<exists>c1 c2 u1 u2. replies trace = [c1, c2] \<and> length (requests trace) = 2
                  \<and> co_function_call c1 \<noteq> None
                  \<and> co_usage c1 = Some u1 \<and> co_usage c2 = Some u2
                  \<and> wf_usage r = Some \<lparr>prompt_tokens = prompt_tokens u1 + prompt_tokens u2,
                                       completion_tokens = completion_tokens u1 + completion_tokens u2,
                                       total_tokens = total_tokens u1 + total_tokens u2\<rparr>))
       \<and> (\<exists>u. wf_usage r = Some u
              \<and> (\<forall>task. \<exists>kvs. gen_payload task r = JObj kvs
                     \<and> dict_get kvs ''usage''
                         = JObj [(''prompt_tokens'', JInt (prompt_tokens u)),
                                 (''completion_tokens'', JInt (completion_tokens u)),
                                 (''total_tokens'', JInt (total_tokens u))]))"
  using assms
proof (cases rule: chat_with_functions_Inr)
  case (direct create c u)
  then show ?thesis by (simp add: gen_payload_def usage_field_def dict_get_def)
next
  case (called create c u fc trace')
  from called(5) show ?thesis
  proof (rule function_round_Inr)
    fix res invs c2 u2
    assume "trace' = map Invoked invs
             @ [Completion (follow_params env request \<lparr>fc_name = fc_name fc, fc_arguments = fc_arguments fc\<rparr> res)
                           (Inr c2)]"
      and "co_usage c2 = Some u2"
      and "r = \<lparr>wf_response = Some (str_or_default (co_content c2) done_msg),
          wf_model = rf_model request,
          wf_usage = Some (add_usage u u2),
          wf_session_id = rf_session_id request,
          wf_function_call = Some \<lparr>fc_name = fc_name fc, fc_arguments = fc_arguments fc\<rparr>,
          wf_function_result = Some res,
          wf_requires_function_call = False\<rparr>"
    then show ?thesis
      using called(3,4,6)
      by (simp add: requests_append replies_append requests_Invoked replies_Invoked add_usage_def
            gen_payload_def usage_field_def dict_get_def)
  qed
qed

text \<open>Two rounds with usages (10, 5, 15) and (8, 4, 12) give (18, 9, 27).\<close>

theorem usage_is_sum_of_rounds_witness:
  "\<exists>r trace. chat_with_functions sample_env sample_llm sample_request = (Inr r, trace)
      \<and> map co_usage (replies trace)
          = [Some \<lparr>prompt_tokens = 10, completion_tokens = 5, total_tokens = 15\<rparr>,
             Some \<lparr>prompt_tokens = 8, completion_tokens = 4, total_tokens = 12\<rparr>]
      \<and> wf_usage r = Some \<lparr>prompt_tokens = 18, completion_tokens = 9, total_tokens = 27\<rparr>"
proof -
  obtain r trace where e: "chat_with_functions sample_env sample_llm sample_request = (Inr r, trace)"
    by (simp add: chat_defs sample_defs)
  have fc: "wf_function_call r \<noteq> None"
    using e by (auto simp: chat_defs sample_defs)
  have rp: "map co_usage (replies trace)
          = [Some \<lparr>prompt_tokens = 10, completion_tokens = 5, total_tokens = 15\<rparr>,
             Some \<lparr>prompt_tokens = 8, completion_tokens = 4, total_tokens = 12\<rparr>]"
    using e by (auto simp: chat_defs sample_defs)
  from usage_is_sum_of_rounds [OF e] fc
  obtain c1 c2 u1 u2 where "replies trace = [c1, c2]"
    "co_usage c1 = Some u1" "co_usage c2 = Some u2"
    "wf_usage r = Some \<lparr>prompt_tokens = prompt_tokens u1 + prompt_tokens u2,
                         completion_tokens = completion_tokens u1 + completion_tokens u2,
                         total_tokens = total_tokens u1 + total_tokens u2\<rparr>"
    by blast
  with rp have "wf_usage r = Some \<lparr>prompt_tokens = 18, completion_tokens = 9, total_tokens = 27\<rparr>"
    by simp
  with e rp show ?thesis
    by (intro exI [of _ r] exI [of _ trace] conjI)
qed

text \<open>
  C10. When \<open>chat_with_functions\<close> returns a response after a function call, the response
  text is present and not empty: it is the text of the second reply, or the placeholder
  \<open>done_msg\<close> when that reply has no text or an empty one. Without a function call the
  response is the text of the only reply, or the empty string when the reply has none.
  The event the consumer publishes for the response carries that text.
\<close>

theorem response_after_function_call:
  assumes "chat_with_functions env self request = (Inr r, trace)"
  shows "(wf_function_call r \<noteq> None \<longrightarrow>
            wf_response r \<noteq> None \<and> wf_response r \<noteq> Some []
            \<and> (\<exists>c1 c2. replies trace = [c1, c2]
                  \<and> wf_response r = Some (case co_content c2 of
                                            None \<Rightarrow> done_msg
                                          | Some s \<Rightarrow> if s = [] then done_msg else s)))
       \<and> (wf_function_call r = None \<longrightarrow>
            (\<exists>c. replies trace = [c]
                  \<and> wf_response r = Some (case co_content c of None \<Rightarrow> [] | Some s \<Rightarrow> s)))
       \<and> (\<forall>task. \<exists>kvs s. gen_payload task r = JObj kvs \<and> wf_response r = Some s
                  \<and> dict_get kvs ''response'' = JStr s)"
  using assms
proof (cases rule: chat_with_functions_Inr)
  case (direct create c u)
  then show ?thesis
    by (simp add: str_or_default_def gen_payload_def dict_get_def split: option.split)
next
  case (called create c u fc trace')
  from called(5) show ?thesis
  proof (rule function_round_Inr)
    fix res invs c2 u2
    assume "trace' = map Invoked invs
             @ [Completion (follow_params env request \<lparr>fc_name = fc_name fc, fc_arguments = fc_arguments fc\<rparr> res)
                           (Inr c2)]"
      and "r = \<lparr>wf_response = Some (str_or_default (co_content c2) done_msg),
          wf_model = rf_model request,
          wf_usage = Some (add_usage u u2),
          wf_session_id = rf_session_id request,
          wf_function_call = Some \<lparr>fc_name = fc_name fc, fc_arguments = fc_arguments fc\<rparr>,
          wf_function_result = Some res,
          wf_requires_function_call = False\<rparr>"
    then show ?thesis
      using called(6)
      by (simp add: requests_append replies_append requests_Invoked replies_Invoked
            str_or_default_def gen_payload_def dict_get_def done_msg_def split: option.split)
  qed
qed

text \<open>A second round without text: the response is the placeholder.\<close>

theorem response_after_function_call_witness:
  "\<exists>r trace. chat_with_functions sample_env silent_llm sample_request = (Inr r, trace)
      \<and> map co_content (replies trace) = [None, None]
      \<and> wf_function_call r \<noteq> None
      \<and> wf_response r = Some done_msg"
proof -
  obtain r trace where e: "chat_with_functions sample_env silent_llm sample_request = (Inr r, trace)"
    by (simp add: chat_defs sample_defs silent_llm_def silent_provider_def)
  have fc: "wf_function_call r \<noteq> None"
    using e by (auto simp: chat_defs sample_defs silent_llm_def silent_provider_def)
  have rp: "map co_content (replies trace) = [None, None]"
    using e by (auto simp: chat_defs sample_defs silent_llm_def silent_provider_def)
  from response_after_function_call [OF e] fc
  obtain c1 c2 where "replies trace = [c1, c2]"
    "wf_response r = Some (case co_content c2 of
                              None \<Rightarrow> done_msg
                            | Some s \<Rightarrow> if s = [] then done_msg else s)"
    by blast
  with rp have "wf_response r = Some done_msg" by simp
  with e rp fc show ?thesis
    by (intro exI [of _ r] exI [of _ trace] conjI)
qed

section \<open>Properties of the queue consumer\<close>






text \<open>
  A timeout sends the payload on with the counter of the header plus one: to the retry
  topic while that is at most 5, to the dead-letter topic after.
\<close>

lemma on_message_timeout:
  assumes "handle_message env llm (body msg) = (Some (AsyncioTimeoutError m), evs)"
    and "body msg = Some (JObj d)"
    and "py_int (dict_get_default (headers msg) ''x-retry-count'' (JInt 0)) = Inr n"
    and "encodable (JObj (dict_set d ''x-retry-count'' (JInt (n + 1))))"
  shows "on_message env llm msg =
         (None, evs @ [Published (if n + 1 \<le> 5 then ROUTING_RETRY else ROUTING_DLQ)
                          \<lparr>headers = [],
                           body = Some (JObj (dict_set d ''x-retry-count'' (JInt (n + 1))))\<rparr>])"
  using assms by (simp add: on_message_def on_timeout_def publish_def Let_def)

text \<open>An exception outside \<open>Exception\<close> leaves the loop body, and nothing is published for it.\<close>

lemma on_message_escapes:
  assumes "handle_message env llm (body msg) = (Some e, evs)" and "\<not> is_exception e"
  shows "on_message env llm msg = (Some e, evs)"
  using assms by (cases e) (simp_all add: on_message_def)

text \<open>A body that does not decode is dropped: neither handler can decode it either.\<close>

lemma on_message_undecodable:
  assumes "body msg = None"
  shows "on_message env llm msg = (None, [])"
  using assms
  by (simp add: on_message_def handle_message_def undecodable_def on_unrecoverable_def)




lemmas worker_defs = on_message_def on_timeout_def on_unrecoverable_def handle_message_def
  from_json_def build_request_def
  build_messages_def gen_payload_def usage_field_def publish_def dict_get_def
  dict_get_default_def py_or_def ROUTING_RETRY_def ROUTING_DLQ_def ROUTING_GENERATED_def

lemmas llm_sample_defs = timeout_llm_def direct_llm_def timeout_provider_def
  direct_provider_def sample_rag_query_def sample_repr_def

text \<open>
  The retry counter. The consumer reads the counter from the header \<open>x-retry-count\<close> of
  the delivery and writes the incremented value into the body of the message it
  publishes, which has no headers. A message that comes back from the retry queue
  therefore counts from zero again.
\<close>

lemma timeout_first_delivery:
  "on_message sample_env timeout_llm sample_delivery
     = (None,
        [Llm (Completion (first_params sample_env (build_request sample_repr (projr (from_json sample_repr (JObj sample_task)))))
                         (Inl (AsyncioTimeoutError ''timed out''))),
         Published ROUTING_RETRY retried_delivery])"
  by (simp add: worker_defs chat_defs sample_defs llm_sample_defs sample_delivery_def
        sample_task_def retried_delivery_def)

lemma timeout_redelivery:
  "[(k, m). Published k m \<leftarrow> snd (on_message sample_env timeout_llm retried_delivery)]
     = [(ROUTING_RETRY, retried_delivery)]"
  by (simp add: worker_defs chat_defs sample_defs llm_sample_defs sample_task_def
        retried_delivery_def)

lemma retry_chain_retried:
  "retry_chain sample_env timeout_llm n retried_delivery = replicate n (ROUTING_RETRY, retried_delivery)"
  by (induction n) (simp_all add: timeout_redelivery)

lemma retry_chain_sample:
  "retry_chain sample_env timeout_llm (Suc n) sample_delivery
     = replicate (Suc n) (ROUTING_RETRY, retried_delivery)"
  by (simp add: timeout_first_delivery retry_chain_retried)

text \<open>
  C1, at a task whose handling times out on every delivery. The first delivery has no
  counter in its headers. Each of six consecutive deliveries, the first and the five
  redeliveries from the retry queue, is republished to the retry topic with the counter
  1 in its body; none reaches the dead-letter topic, and the counter does not grow.
\<close>

theorem retry_counter_restarts:
  "map fst (retry_chain sample_env timeout_llm 6 sample_delivery) = replicate 6 ''chat.generate.retry''
   \<and> map (retry_count_of \<circ> snd) (retry_chain sample_env timeout_llm 6 sample_delivery)
       = replicate 6 (JInt 1)
   \<and> map (headers \<circ> snd) (retry_chain sample_env timeout_llm 6 sample_delivery)
       = replicate 6 []"
proof -
  have "retry_chain sample_env timeout_llm 6 sample_delivery
          = replicate 6 (ROUTING_RETRY, retried_delivery)"
    using retry_chain_sample [of 5] by (simp add: numeral_eq_Suc)
  moreover have "retry_count_of retried_delivery = JInt 1"
    by (simp add: retry_count_of_def retried_delivery_def sample_task_def dict_get_def)
  moreover have "headers retried_delivery = []"
    by (simp add: retried_delivery_def)
  ultimately show ?thesis
    by (simp add: ROUTING_RETRY_def)
qed

text \<open>
  Retrieval. The request the consumer builds does not depend on \<open>use_rag\<close>, \<open>namespace\<close> or
  \<open>tags\<close> of the task, and \<open>chat_with_functions\<close> depends neither on the default of the
  service nor on the retrieval.
\<close>

lemma build_request_ignores_rag:
  "build_request repr (task\<lparr>use_rag := a, namespace := b, tags := c\<rparr>) = build_request repr task"
  by (simp add: build_request_def build_messages_def)

lemma first_params_ignores_rag:
  "first_params (env\<lparr>rag_query := q\<rparr>) request = first_params env request"
  by (simp add: first_params_def get_available_functions_def Let_def split: option.split)

lemma function_round_ignores_rag:
  "function_round (env\<lparr>rag_query := q\<rparr>) create request usage fc
     = function_round env create request usage fc"
  by (simp add: function_round_def follow_params_def Let_def split: prod.split sum.split option.split)

lemma chat_with_functions_ignores_rag:
  "chat_with_functions (env\<lparr>rag_query := q\<rparr>)
                       (self\<lparr>rag_default_on := b, rag_default_namespace := ns\<rparr>) request
     = chat_with_functions env self request"
  by (simp add: chat_with_functions_def first_params_ignores_rag function_round_ignores_rag
        is_model_supported_def Let_def split: option.split sum.split)

text \<open>
  C2, at a task with \<open>use_rag\<close> set, a service whose default is on and a retrieval that
  finds one chunk. The conversation the consumer sends to the provider is the user
  message alone, with no context message; the synchronous \<open>chat_completion\<close> sends, for the
  same question, the context message and then the user message.
\<close>

theorem worker_sends_no_context:
  "dict_get sample_task ''use_rag'' = JBool True
   \<and> rag_default_on direct_llm
   \<and> map length (projr (rag_query sample_env ''When does the office open?'' 5 (Some ''kb'') 7 None)) = [4]
   \<and> map cp_messages (requests (llm_events (snd (on_message sample_env direct_llm sample_delivery))))
       = [[\<lparr>md_role = ''user'', md_content = ''When does the office open?'',
             md_function_call = None, md_name = None\<rparr>]]
   \<and> map (map md_role \<circ> cp_messages)
          (requests (snd (chat_completion sample_env direct_llm sample_chat_request)))
       = [[''system'', ''user'']]"
proof -
  have a: "dict_get sample_task ''use_rag'' = JBool True"
    by (simp add: sample_task_def dict_get_def)
  have b: "rag_default_on direct_llm"
    by (simp add: direct_llm_def sample_llm_def)
  have c: "map length (projr (rag_query sample_env ''When does the office open?'' 5 (Some ''kb'') 7 None)) = [4]"
    by (simp add: sample_env_def sample_rag_query_def)
  have d: "map cp_messages (requests (llm_events (snd (on_message sample_env direct_llm sample_delivery))))
       = [[\<lparr>md_role = ''user'', md_content = ''When does the office open?'',
             md_function_call = None, md_name = None\<rparr>]]"
    by (simp add: worker_defs chat_defs sample_defs llm_sample_defs sample_delivery_def
          sample_task_def)
  have e: "map (map md_role \<circ> cp_messages)
          (requests (snd (chat_completion sample_env direct_llm sample_chat_request)))
       = [[''system'', ''user'']]"
    by (simp add: chat_completion_def maybe_inject_rag_context_def call_params_def
          snippet_def py_slice_def slice_index_def
          is_model_supported_def real_or_def int_or_def dict_get_def dict_get_default_def
          py_or_def Let_def sample_defs llm_sample_defs sample_chat_request_def)
  from a b c d e show ?thesis by blast
qed

section \<open>The second request\<close>

text \<open>
  When the first reply carries a function call and the call of the service succeeds, two
  requests were sent. The second offers no functions, and its conversation is the
  messages of the request, each reduced to role and content, then the assistant message
  that carries the call, then the function message with the serialised result of the
  dispatch.
\<close>

lemma second_request:
  assumes "chat_with_functions env self request = (Inr r, trace)"
    and "wf_function_call r = Some call"
  shows "\<exists>res. wf_function_result r = Some res
           \<and> fst (execute (json_loads env) (clock env) (function_executor env) call) = Inr res
           \<and> requests trace = [first_params env request, follow_params env request call res]
           \<and> cp_functions (follow_params env request call res) = None
           \<and> cp_function_call (follow_params env request call res) = None
           \<and> cp_messages (follow_params env request call res)
               = map follow_dict (rf_messages request)
                 @ [\<lparr>md_role = ''assistant'', md_content = [], md_function_call = Some call,
                     md_name = None\<rparr>,
                    \<lparr>md_role = ''function'', md_content = json_dumps env (result res),
                     md_function_call = None, md_name = Some (fc_name call)\<rparr>]"
  using assms(1)
proof (cases rule: chat_with_functions_Inr)
  case (direct create c u)
  then show ?thesis using assms(2) by simp
next
  case (called create c u fc trace')
  from called(5) show ?thesis
  proof (rule function_round_Inr)
    fix res invs c2 u2
    assume "execute (json_loads env) (clock env) (function_executor env)
              \<lparr>fc_name = fc_name fc, fc_arguments = fc_arguments fc\<rparr> = (Inr res, invs)"
      and "trace' = map Invoked invs
             @ [Completion (follow_params env request \<lparr>fc_name = fc_name fc, fc_arguments = fc_arguments fc\<rparr> res)
                           (Inr c2)]"
      and "r = \<lparr>wf_response = Some (str_or_default (co_content c2) done_msg),
          wf_model = rf_model request,
          wf_usage = Some (add_usage u u2),
          wf_session_id = rf_session_id request,
          wf_function_call = Some \<lparr>fc_name = fc_name fc, fc_arguments = fc_arguments fc\<rparr>,
          wf_function_result = Some res,
          wf_requires_function_call = False\<rparr>"
    then show ?thesis
      using called(6) assms(2)
      by (auto simp: requests_append requests_Invoked follow_params_def)
  qed
qed

text \<open>
  A message without function call and without name has the same dictionary in both
  rounds; every message of a request that the consumer builds is such a message.
\<close>

lemma follow_dict_plain:
  assumes "mf_function_call m = None" and "mf_name m = None \<or> mf_name m = Some []"
  shows "follow_dict m = first_round_dict m"
  using assms by (auto simp: follow_dict_def first_round_dict_def)

lemma build_request_plain:
  "map follow_dict (rf_messages (build_request repr task))
     = map first_round_dict (rf_messages (build_request repr task))"
  by (simp add: build_request_def follow_dict_def first_round_dict_def)

text \<open>
  C5, at a request whose conversation holds an earlier function call and its result.
  The first request carries the call of the second message and the name of the third;
  the second request carries neither, so that its conversation is not the conversation
  of the first request extended by two messages.
\<close>

theorem second_request_drops_call_metadata:
  "length (requests (snd (chat_with_functions sample_env sample_llm followup_request))) = 2
   \<and> map md_name (cp_messages
         (requests (snd (chat_with_functions sample_env sample_llm followup_request)) ! 0))
       = [None, None, Some ''unix_time'', None]
   \<and> map md_function_call (cp_messages
         (requests (snd (chat_with_functions sample_env sample_llm followup_request)) ! 0))
       = [None, Some \<lparr>fc_name = ''unix_time'', fc_arguments = ''{}''\<rparr>, None, None]
   \<and> map md_name (cp_messages
         (requests (snd (chat_with_functions sample_env sample_llm followup_request)) ! 1))
       = [None, None, None, None, None, Some ''unix_time'']
   \<and> map md_function_call (cp_messages
         (requests (snd (chat_with_functions sample_env sample_llm followup_request)) ! 1))
       = [None, None, None, None, Some \<lparr>fc_name = ''unix_time'', fc_arguments = ''{}''\<rparr>, None]
   \<and> take 4 (cp_messages
         (requests (snd (chat_with_functions sample_env sample_llm followup_request)) ! 1))
       \<noteq> cp_messages
         (requests (snd (chat_with_functions sample_env sample_llm followup_request)) ! 0)"
  by (simp add: chat_defs sample_defs followup_request_def)

section \<open>Properties of ingestion\<close>

lemma base_id_same:
  assumes "(\<exists>d. doc_id = Some d \<and> d \<noteq> []) \<or> (ns1 = ns2 \<and> uid1 = uid2)"
  shows "base_id_of sha text doc_id ns1 uid1 = base_id_of sha text doc_id ns2 uid2"
  using assms by (auto simp: base_id_of_def)

text \<open>What a successful ingestion returns and upserts.\<close>

lemma ingest_text_Inr:
  assumes "ingest_text self sha create upsert text doc_id ns uid tgs extra = Inr r"
  shows "(split_text self text = [] \<and> ir_doc_id r = str_or_default doc_id [] \<and> ir_upsert r = None)
       \<or> (split_text self text \<noteq> []
           \<and> ir_doc_id r = base_id_of sha text doc_id ns uid
           \<and> map_option up_ids (ir_upsert r)
               = Some (chunk_ids sha (base_id_of sha text doc_id ns uid) (length (split_text self text))))"
  using assms
  by (auto simp: ingest_text_def Let_def split: if_splits sum.splits option.splits)

text \<open>
  C8. Two ingestions of the same text by the same service, with the same \<open>doc_id\<close>, or,
  when \<open>doc_id\<close> is absent or empty, with the same namespace and user id, return the same
  base id and upsert the same chunk ids, whatever the tags, the extra metadata, the
  embeddings and the answer of the collection are; the chunk ids are the digests of the
  base id followed by \<open>-\<close> and the index.
\<close>

theorem chunk_ids_reproducible:
  assumes "ingest_text self sha create1 upsert1 text doc_id ns1 uid1 tags1 extra1 = Inr r1"
    and "ingest_text self sha create2 upsert2 text doc_id ns2 uid2 tags2 extra2 = Inr r2"
    and "(\<exists>d. doc_id = Some d \<and> d \<noteq> []) \<or> (ns1 = ns2 \<and> uid1 = uid2)"
  shows "ir_doc_id r1 = ir_doc_id r2
       \<and> map_option up_ids (ir_upsert r1) = map_option up_ids (ir_upsert r2)
       \<and> (\<forall>c. ir_upsert r1 = Some c \<longrightarrow>
              up_ids c = map (\<lambda>i. hash_id sha (ir_doc_id r1 @ ''-'' @ str_nat i))
                             [0..<length (split_text self text)])"
proof -
  note b = base_id_same [OF assms(3), of sha "text"]
  from ingest_text_Inr [OF assms(1)] ingest_text_Inr [OF assms(2)]
  show ?thesis
    by (auto simp: b chunk_ids_def)
qed

lemma split_text_hello: "split_text default_rag ''opening hours'' = [''opening hours'']"
  by (simp add: split_text_def default_rag_def range_from_step range_from_stop
        py_slice_def slice_index_def)

lemma default_rag_flags: "collection default_rag" "emb_client default_rag"
  by (simp_all add: default_rag_def)

text \<open>The same text under the same namespace and user, with and without tags.\<close>

theorem chunk_ids_reproducible_witness:
  "map_option up_ids (ir_upsert (projr
      (ingest_text default_rag toy_digest unit_embeddings accept_upsert ''opening hours'' None
         (Some ''kb'') (Some 7) (Some [''faq'']) None)))
   = map_option up_ids (ir_upsert (projr
      (ingest_text default_rag toy_digest unit_embeddings accept_upsert ''opening hours'' None
         (Some ''kb'') (Some 7) None (Some [(''lang'', JStr ''en'')]))))
   \<and> map_option (length \<circ> up_ids) (ir_upsert (projr
      (ingest_text default_rag toy_digest unit_embeddings accept_upsert ''opening hours'' None
         (Some ''kb'') (Some 7) (Some [''faq'']) None))) = Some 1"
proof -
  obtain r1 where e1: "ingest_text default_rag toy_digest unit_embeddings accept_upsert
      ''opening hours'' None (Some ''kb'') (Some 7) (Some [''faq'']) None = Inr r1"
    by (simp add: ingest_text_def split_text_hello embed_texts_def unit_embeddings_def
          accept_upsert_def default_rag_flags Let_def)
  obtain r2 where e2: "ingest_text default_rag toy_digest unit_embeddings accept_upsert
      ''opening hours'' None (Some ''kb'') (Some 7) None (Some [(''lang'', JStr ''en'')]) = Inr r2"
    by (simp add: ingest_text_def split_text_hello embed_texts_def unit_embeddings_def
          accept_upsert_def default_rag_flags Let_def)
  have i: "(\<exists>d. (None :: string option) = Some d \<and> d \<noteq> [])
           \<or> (Some ''kb'' = Some ''kb'' \<and> Some (7::int) = Some 7)"
    by simp
  note t = chunk_ids_reproducible [OF e1 e2 i]
  have "map_option (length \<circ> up_ids) (ir_upsert r1) = Some 1"
    using ingest_text_Inr [OF e1] by (auto simp: split_text_hello chunk_ids_def)
  with t show ?thesis by (simp add: e1 e2)
qed

end
